theory Spec2Isabelle
  imports Main "HOL-Library.AList" "HOL-Library.Sublist"
begin

section \<open>KAIROS ML service: data model\<close>

text \<open>
  The service (\<^verbatim>\<open>ml-service/app.py\<close>) keeps two module-level dictionaries,
  \<^verbatim>\<open>loaded_models\<close> and \<^verbatim>\<open>scalers\<close>, and a directory of artifacts. Python
  dictionaries keep insertion order and overwrite in place, which is what
  \<open>AList.update\<close> does on an association list; \<^verbatim>\<open>del d[k]\<close> is \<open>AList.delete\<close>.
  Every function of the source becomes a function from the state before the call to
  its result and the state after it. Exceptions are values of type \<open>exn\<close>.

  What the model leaves out: requests are handled one after the other (no interleaving);
  model names are strings without path separators, so that an artifact is a file name
  directly inside the storage directory; a request body that is JSON is \<^verbatim>\<open>null\<close>
  or an object (not a list, a string or a number), and its features and target are
  numbers or lists of numbers, up to two levels deep; the two read-only handlers
  \<^verbatim>\<open>health_check\<close> and \<^verbatim>\<open>list_models\<close> are not modelled, they never assign
  to the dictionaries.
\<close>

datatype exn =
  ValueError | TypeError | IndexError | KeyError | AttributeError | OSError | UnpicklingError
| BadRequest

text \<open>
  The array \<^verbatim>\<open>np.array\<close> builds from a JSON payload. The element type is left
  open, the service never computes with the entries itself.
\<close>

datatype 'a ndarray = Arr0 'a | Arr1 "'a list" | Arr2 "'a list list"

fun ndim :: "'a ndarray \<Rightarrow> nat" where
  "ndim (Arr0 x) = 0"
| "ndim (Arr1 v) = 1"
| "ndim (Arr2 rows) = 2"

fun shape :: "'a ndarray \<Rightarrow> nat list" where
  "shape (Arr0 x) = []"
| "shape (Arr1 v) = [length v]"
| "shape (Arr2 rows) = [length rows, (case rows of [] \<Rightarrow> 0 | r # rs \<Rightarrow> length r)]"

text \<open>\<^verbatim>\<open>x.shape[i]\<close>: indexing the shape tuple out of range raises IndexError.\<close>

definition shape_at :: "'a ndarray \<Rightarrow> nat \<Rightarrow> exn + nat" where
  "shape_at x i = (if i < length (shape x) then Inr (shape x ! i) else Inl IndexError)"

text \<open>\<^verbatim>\<open>x.reshape(1, -1)\<close>: all entries in one row.\<close>

fun reshape_1_m1 :: "'a ndarray \<Rightarrow> 'a ndarray" where
  "reshape_1_m1 (Arr0 x) = Arr2 [[x]]"
| "reshape_1_m1 (Arr1 v) = Arr2 [v]"
| "reshape_1_m1 (Arr2 rows) = Arr2 [concat rows]"

text \<open>
  The JSON value of a features or target field: a number, a list of numbers or a list of
  lists of numbers. \<^verbatim>\<open>np.array\<close> raises ValueError on rows of different lengths
  (an inhomogeneous shape); the empty list is the 1-D array without entries.
\<close>

datatype 'a payload = Number 'a | Vector "'a list" | Rows "'a list list"

fun same_length :: "nat \<Rightarrow> 'a list list \<Rightarrow> bool" where
  "same_length d [] = True"
| "same_length d (r # rs) = (length r = d \<and> same_length d rs)"

fun np_array :: "'a payload \<Rightarrow> exn + 'a ndarray" where
  "np_array (Number x) = Inr (Arr0 x)"
| "np_array (Vector v) = Inr (Arr1 v)"
| "np_array (Rows []) = Inr (Arr1 [])"
| "np_array (Rows (r # rs)) =
     (if same_length (length r) rs then Inr (Arr2 (r # rs)) else Inl ValueError)"

text \<open>Metadata records are dictionaries from field names to strings, counts or scores.\<close>

datatype 'a mval = MStr string | MInt nat | MFloat 'a

type_synonym 'a metadata = "(string \<times> 'a mval) list"

text \<open>
  Python objects the service pickles and caches: a fitted regressor or a fitted
  scaler. The service never checks which of the two it holds, so the dictionaries and the
  artifacts hold objects, and a method an object does not have raises AttributeError.
\<close>

datatype ('m, 's) obj = Regressor 'm | Scaler 's

datatype ('a, 'm, 's) artifact = Joblib "('m, 's) obj" | Json "'a metadata" | Corrupt

text \<open>
  The numerical library (scikit-learn) is a parameter: the split, the scaler and the
  regressor, each of which may raise.
\<close>

record ('a, 'm, 's) sklearn =
  train_test_split ::
    "'a ndarray \<Rightarrow> 'a ndarray \<Rightarrow> exn + ('a ndarray \<times> 'a ndarray \<times> 'a ndarray \<times> 'a ndarray)"
  scaler_fit_transform :: "'a ndarray \<Rightarrow> exn + ('s \<times> 'a ndarray)"
  scaler_transform :: "'s \<Rightarrow> 'a ndarray \<Rightarrow> exn + 'a ndarray"
  model_fit :: "'a ndarray \<Rightarrow> 'a ndarray \<Rightarrow> exn + 'm"
  model_score :: "'m \<Rightarrow> 'a ndarray \<Rightarrow> 'a ndarray \<Rightarrow> exn + 'a"
  model_predict :: "'m \<Rightarrow> 'a ndarray \<Rightarrow> exn + 'a ndarray"

definition obj_transform ::
  "('a, 'm, 's) sklearn \<Rightarrow> ('m, 's) obj \<Rightarrow> 'a ndarray \<Rightarrow> exn + 'a ndarray" where
  "obj_transform lib ob x =
     (case ob of Scaler sc \<Rightarrow> scaler_transform lib sc x | Regressor m \<Rightarrow> Inl AttributeError)"

definition obj_predict ::
  "('a, 'm, 's) sklearn \<Rightarrow> ('m, 's) obj \<Rightarrow> 'a ndarray \<Rightarrow> exn + 'a ndarray" where
  "obj_predict lib ob x =
     (case ob of Regressor m \<Rightarrow> model_predict lib m x | Scaler sc \<Rightarrow> Inl AttributeError)"

datatype level = INFO | WARNING | ERROR

datatype event =
  Model_loaded string | Model_not_found string | Load_failed string exn
| Model_saved string | Save_failed string exn
| Train_failed exn | Predict_failed exn | Traceback
| Service_starting | Storage_path | Autoload_failed exn

text \<open>
  The state: the two dictionaries, the storage directory (file names inside
  \<^verbatim>\<open>MODEL_STORAGE_PATH\<close> and their contents), the faults of the medium
  (\<open>mkdir_fails\<close>, \<open>listdir_fails\<close>, \<open>unwritable\<close>: the call raises OSError), the
  paths \<^verbatim>\<open>joblib.load\<close> has read so far, and the log.
\<close>

record ('a, 'm, 's) state =
  loaded_models :: "(string \<times> ('m, 's) obj) list"
  scalers :: "(string \<times> ('m, 's) obj option) list"
  dir_exists :: bool
  files :: "(string \<times> ('a, 'm, 's) artifact) list"
  mkdir_fails :: bool
  listdir_fails :: bool
  unwritable :: "string set"
  load_trace :: "string list"
  log_lines :: "(level \<times> event) list"

definition logging :: "level \<Rightarrow> event \<Rightarrow> ('a, 'm, 's) state \<Rightarrow> ('a, 'm, 's) state" where
  "logging lv ev s = s\<lparr>log_lines := log_lines s @ [(lv, ev)]\<rparr>"

text \<open>
  What \<^verbatim>\<open>request.get_json()\<close> does with a request: it raises (no JSON body, a
  body that is not JSON, a wrong content type: the handlers call it inside their
  \<^verbatim>\<open>try\<close>), or it returns the JSON value \<^verbatim>\<open>null\<close>, or it returns a
  JSON object, in which a field that is \<open>None\<close> is absent. Responses are a status code
  and a body; the constructors of \<open>body\<close> stand for the fixed messages of the source.
\<close>

datatype 'd json_body = Raises exn | Null | Object 'd

record 'a train_request =
  t_features :: "'a payload option"
  t_target :: "'a payload option"
  t_model_name :: "string option"

record 'a predict_request =
  p_features :: "'a payload option"
  p_model_name :: "string option"

datatype 'a body =
  Error_train_fields
| Error_predict_fields
| Error_not_loadable string
| Error_saving
| Error_exception exn
| Trained string "'a metadata"
| Predictions "'a ndarray" string string
| Message_loaded string
| Message_unloaded string

type_synonym 'a response = "nat \<times> 'a body"

section \<open>Strings and paths\<close>

definition endswith :: "string \<Rightarrow> string \<Rightarrow> bool" where
  "endswith f suf = suffix suf f"

text \<open>\<^verbatim>\<open>s.replace(old, new)\<close>: every non-overlapping occurrence, from the left.\<close>

function replace :: "string \<Rightarrow> string \<Rightarrow> string \<Rightarrow> string" where
  "replace old new s =
     (if old = [] then new @ concat (map (\<lambda>c. c # new) s)
      else if s = [] then []
      else if prefix old s then new @ replace old new (drop (length old) s)
      else hd s # replace old new (tl s))"
  by pat_completeness auto
termination
  by (relation "measure (\<lambda>(old, new, s). length s)") auto

declare replace.simps [simp del]

definition model_path :: "string \<Rightarrow> string" where
  "model_path model_name = model_name @ ''.joblib''"

definition scaler_path :: "string \<Rightarrow> string" where
  "scaler_path model_name = model_name @ ''_scaler.joblib''"

definition metadata_path :: "string \<Rightarrow> string" where
  "metadata_path model_name = model_name @ ''_metadata.json''"

section \<open>The storage directory\<close>

definition path_exists :: "('a, 'm, 's) state \<Rightarrow> string \<Rightarrow> bool" where
  "path_exists s p = (dir_exists s \<and> p \<in> fst ` set (files s))"

definition ensure_model_directory :: "('a, 'm, 's) state \<Rightarrow> exn + ('a, 'm, 's) state" where
  "ensure_model_directory s =
     (if dir_exists s then Inr s
      else if mkdir_fails s then Inl OSError
      else Inr (s\<lparr>dir_exists := True\<rparr>))"

definition joblib_load ::
  "string \<Rightarrow> ('a, 'm, 's) state \<Rightarrow> (exn + ('m, 's) obj) \<times> ('a, 'm, 's) state" where
  "joblib_load p s =
     (let s' = s\<lparr>load_trace := load_trace s @ [p]\<rparr> in
      if \<not> dir_exists s then (Inl OSError, s')
      else (case map_of (files s) p of
              None \<Rightarrow> (Inl OSError, s')
            | Some (Joblib ob) \<Rightarrow> (Inr ob, s')
            | Some (Json md) \<Rightarrow> (Inl UnpicklingError, s')
            | Some Corrupt \<Rightarrow> (Inl UnpicklingError, s')))"

definition write_file ::
  "string \<Rightarrow> ('a, 'm, 's) artifact \<Rightarrow> ('a, 'm, 's) state \<Rightarrow> exn + ('a, 'm, 's) state" where
  "write_file p c s =
     (if \<not> dir_exists s \<or> p \<in> unwritable s then Inl OSError
      else Inr (s\<lparr>files := AList.update p c (files s)\<rparr>))"

definition listdir :: "('a, 'm, 's) state \<Rightarrow> exn + string list" where
  "listdir s =
     (if \<not> dir_exists s \<or> listdir_fails s then Inl OSError else Inr (map fst (files s)))"

section \<open>Loading and saving\<close>

definition load_model :: "string \<Rightarrow> ('a, 'm, 's) state \<Rightarrow> bool \<times> ('a, 'm, 's) state" where
  "load_model model_name s =
     (if path_exists s (model_path model_name) then
        (case joblib_load (model_path model_name) s of
           (Inl e, s1) \<Rightarrow> (False, logging ERROR (Load_failed model_name e) s1)
         | (Inr model, s1) \<Rightarrow>
             (case (if path_exists s1 (scaler_path model_name)
                    then (case joblib_load (scaler_path model_name) s1 of
                            (Inl e, s2) \<Rightarrow> (Inl e, s2)
                          | (Inr sc, s2) \<Rightarrow> (Inr (Some sc), s2))
                    else (Inr None, s1)) of
                (Inl e, s2) \<Rightarrow> (False, logging ERROR (Load_failed model_name e) s2)
              | (Inr scaler, s2) \<Rightarrow>
                  (True,
                   logging INFO (Model_loaded model_name)
                     (s2\<lparr>loaded_models := AList.update model_name model (loaded_models s2),
                         scalers := AList.update model_name scaler (scalers s2)\<rparr>))))
      else (False, logging WARNING (Model_not_found model_name) s))"

text \<open>
  \<^verbatim>\<open>save_model(model, scaler, model_name, metadata=None)\<close>. The caller's metadata
  dictionary is updated in place, so its new contents are returned with the result.
  \<open>saved_at\<close> is what \<^verbatim>\<open>datetime.now().isoformat()\<close> returns during the call.
  \<^verbatim>\<open>if scaler:\<close> holds for every scaler object and fails for \<^verbatim>\<open>None\<close>;
  \<^verbatim>\<open>if metadata:\<close> fails for \<^verbatim>\<open>None\<close> and for the empty dictionary. A write
  that raises leaves the file as it was; what was written before it stays written.
\<close>

definition save_model ::
  "string \<Rightarrow> ('m, 's) obj \<Rightarrow> ('m, 's) obj option \<Rightarrow> string \<Rightarrow> 'a metadata option \<Rightarrow>
   ('a, 'm, 's) state \<Rightarrow> (bool \<times> 'a metadata option) \<times> ('a, 'm, 's) state" where
  "save_model saved_at model scaler model_name metadata s =
     (case ensure_model_directory s of
        Inl e \<Rightarrow> ((False, metadata), logging ERROR (Save_failed model_name e) s)
      | Inr s1 \<Rightarrow>
     (case write_file (model_path model_name) (Joblib model) s1 of
        Inl e \<Rightarrow> ((False, metadata), logging ERROR (Save_failed model_name e) s1)
      | Inr s2 \<Rightarrow>
     (case (case scaler of
              Some sc \<Rightarrow> write_file (scaler_path model_name) (Joblib sc) s2
            | None \<Rightarrow> Inr s2) of
        Inl e \<Rightarrow> ((False, metadata), logging ERROR (Save_failed model_name e) s2)
      | Inr s3 \<Rightarrow>
     (if metadata \<noteq> None \<and> metadata \<noteq> Some [] then
        (let md = AList.update ''saved_at'' (MStr saved_at) (the metadata) in
         case write_file (metadata_path model_name) (Json md) s3 of
           Inl e \<Rightarrow> ((False, Some md), logging ERROR (Save_failed model_name e) s3)
         | Inr s4 \<Rightarrow> ((True, Some md), logging INFO (Model_saved model_name) s4))
      else ((True, metadata), logging INFO (Model_saved model_name) s3)))))"

section \<open>Training\<close>

text \<open>Lines 141 to 164 of \<^verbatim>\<open>train_model\<close>: split, scale, fit, score, metadata.\<close>

definition fit_pipeline ::
  "('a, 'm, 's) sklearn \<Rightarrow> string \<Rightarrow> 'a ndarray \<Rightarrow> 'a ndarray \<Rightarrow>
   exn + (('m, 's) obj \<times> ('m, 's) obj \<times> 'a metadata)" where
  "fit_pipeline lib trained_at features target =
     (case train_test_split lib features target of
        Inl e \<Rightarrow> Inl e
      | Inr (X_train, X_test, y_train, y_test) \<Rightarrow>
     (case scaler_fit_transform lib X_train of
        Inl e \<Rightarrow> Inl e
      | Inr (scaler, X_train_scaled) \<Rightarrow>
     (case scaler_transform lib scaler X_test of
        Inl e \<Rightarrow> Inl e
      | Inr X_test_scaled \<Rightarrow>
     (case model_fit lib X_train_scaled y_train of
        Inl e \<Rightarrow> Inl e
      | Inr model \<Rightarrow>
     (case model_score lib model X_train_scaled y_train of
        Inl e \<Rightarrow> Inl e
      | Inr train_score \<Rightarrow>
     (case model_score lib model X_test_scaled y_test of
        Inl e \<Rightarrow> Inl e
      | Inr test_score \<Rightarrow>
     (case shape_at features 1 of
        Inl e \<Rightarrow> Inl e
      | Inr features_count \<Rightarrow>
     (case shape_at features 0 of
        Inl e \<Rightarrow> Inl e
      | Inr samples_count \<Rightarrow>
          Inr (Regressor model, Scaler scaler,
               [(''model_type'', MStr ''RandomForestRegressor''),
                (''features_count'', MInt features_count),
                (''samples_count'', MInt samples_count),
                (''train_score'', MFloat train_score),
                (''test_score'', MFloat test_score),
                (''trained_at'', MStr trained_at)])))))))))"

definition train_model ::
  "('a, 'm, 's) sklearn \<Rightarrow> string \<Rightarrow> string \<Rightarrow> 'a train_request json_body \<Rightarrow>
   ('a, 'm, 's) state \<Rightarrow> 'a response \<times> ('a, 'm, 's) state" where
  "train_model lib trained_at saved_at request s =
     (case request of
        Raises e \<Rightarrow>
          ((500, Error_exception e), logging ERROR Traceback (logging ERROR (Train_failed e) s))
      | Null \<Rightarrow> ((400, Error_train_fields), s)
      | Object d \<Rightarrow>
     (case t_features d of
        None \<Rightarrow> ((400, Error_train_fields), s)
      | Some features_json \<Rightarrow>
     (case t_target d of
        None \<Rightarrow> ((400, Error_train_fields), s)
      | Some target_json \<Rightarrow>
     (case np_array features_json of
        Inl e \<Rightarrow>
          ((500, Error_exception e), logging ERROR Traceback (logging ERROR (Train_failed e) s))
      | Inr features \<Rightarrow>
     (case np_array target_json of
        Inl e \<Rightarrow>
          ((500, Error_exception e), logging ERROR Traceback (logging ERROR (Train_failed e) s))
      | Inr target \<Rightarrow>
     (let model_name = (case t_model_name d of None \<Rightarrow> ''default_model'' | Some n \<Rightarrow> n) in
      case fit_pipeline lib trained_at features target of
        Inl e \<Rightarrow>
          ((500, Error_exception e), logging ERROR Traceback (logging ERROR (Train_failed e) s))
      | Inr (model, scaler, metadata) \<Rightarrow>
          (case save_model saved_at model (Some scaler) model_name (Some metadata) s of
             ((saved, metadata'), s1) \<Rightarrow>
               if saved then
                 ((200, Trained model_name (case metadata' of None \<Rightarrow> [] | Some md \<Rightarrow> md)),
                  s1\<lparr>loaded_models := AList.update model_name model (loaded_models s1),
                     scalers := AList.update model_name (Some scaler) (scalers s1)\<rparr>)
               else ((500, Error_saving), s1))))))))"

section \<open>Prediction\<close>

text \<open>Lines 200 to 210 of \<^verbatim>\<open>predict\<close>: look the pair up, scale, infer.\<close>

definition run_inference ::
  "('a, 'm, 's) sklearn \<Rightarrow> string \<Rightarrow> 'a ndarray \<Rightarrow> ('a, 'm, 's) state \<Rightarrow> exn + 'a ndarray" where
  "run_inference lib model_name features s =
     (case map_of (loaded_models s) model_name of
        None \<Rightarrow> Inl KeyError
      | Some model \<Rightarrow>
     (case (case map_of (scalers s) model_name of
              Some (Some scaler) \<Rightarrow>
                obj_transform lib scaler
                  (if ndim features = 1 then reshape_1_m1 features else features)
            | Some None \<Rightarrow> Inr features
            | None \<Rightarrow> Inr features) of
        Inl e \<Rightarrow> Inl e
      | Inr features_scaled \<Rightarrow> obj_predict lib model features_scaled))"

definition predict ::
  "('a, 'm, 's) sklearn \<Rightarrow> string \<Rightarrow> 'a predict_request json_body \<Rightarrow>
   ('a, 'm, 's) state \<Rightarrow> 'a response \<times> ('a, 'm, 's) state" where
  "predict lib now request s =
     (case request of
        Raises e \<Rightarrow>
          ((500, Error_exception e), logging ERROR Traceback (logging ERROR (Predict_failed e) s))
      | Null \<Rightarrow> ((400, Error_predict_fields), s)
      | Object d \<Rightarrow>
     (case p_features d of
        None \<Rightarrow> ((400, Error_predict_fields), s)
      | Some features_json \<Rightarrow>
     (case p_model_name d of
        None \<Rightarrow> ((400, Error_predict_fields), s)
      | Some model_name \<Rightarrow>
     (case np_array features_json of
        Inl e \<Rightarrow>
          ((500, Error_exception e), logging ERROR Traceback (logging ERROR (Predict_failed e) s))
      | Inr features \<Rightarrow>
     (case (if model_name \<notin> fst ` set (loaded_models s) then load_model model_name s
            else (True, s)) of
        (resident, s1) \<Rightarrow>
          if \<not> resident then ((404, Error_not_loadable model_name), s1)
          else (case run_inference lib model_name features s1 of
                  Inl e \<Rightarrow>
                    ((500, Error_exception e),
                     logging ERROR Traceback (logging ERROR (Predict_failed e) s1))
                | Inr predictions \<Rightarrow> ((200, Predictions predictions model_name now), s1)))))))"

section \<open>Lifecycle\<close>

definition load_model_endpoint ::
  "string \<Rightarrow> ('a, 'm, 's) state \<Rightarrow> 'a response \<times> ('a, 'm, 's) state" where
  "load_model_endpoint model_name s =
     (case load_model model_name s of
        (ok, s1) \<Rightarrow>
          if ok then ((200, Message_loaded model_name), s1)
          else ((404, Error_not_loadable model_name), s1))"

definition unload_model ::
  "string \<Rightarrow> ('a, 'm, 's) state \<Rightarrow> 'a response \<times> ('a, 'm, 's) state" where
  "unload_model model_name s =
     (let s1 = (if model_name \<in> fst ` set (loaded_models s)
                then s\<lparr>loaded_models := AList.delete model_name (loaded_models s)\<rparr> else s);
          s2 = (if model_name \<in> fst ` set (scalers s1)
                then s1\<lparr>scalers := AList.delete model_name (scalers s1)\<rparr> else s1)
      in ((200, Message_unloaded model_name), s2))"

text \<open>The start of the process (lines 251 to 262); \<open>Inl\<close> is a crash before serving.\<close>

definition model_files :: "string list \<Rightarrow> string list" where
  "model_files fs =
     filter (\<lambda>f. endswith f ''.joblib'' \<and> \<not> endswith f ''_scaler.joblib'') fs"

fun load_each :: "string list \<Rightarrow> ('a, 'm, 's) state \<Rightarrow> ('a, 'm, 's) state" where
  "load_each [] s = s"
| "load_each (model_file # rest) s =
     load_each rest (snd (load_model (replace ''.joblib'' '''' model_file) s))"

definition startup :: "('a, 'm, 's) state \<Rightarrow> exn + ('a, 'm, 's) state" where
  "startup s =
     (case ensure_model_directory s of
        Inl e \<Rightarrow> Inl e
      | Inr s0 \<Rightarrow>
          (let s1 = logging INFO Storage_path (logging INFO Service_starting s0) in
           case listdir s1 of
             Inl e \<Rightarrow> Inr (logging WARNING (Autoload_failed e) s1)
           | Inr fs \<Rightarrow> Inr (load_each (model_files fs) s1)))"

section \<open>Reachable states\<close>

text \<open>
  The process starts with both dictionaries empty; the startup sweep and every request
  handler that can assign to the dictionaries is a step, and so is any change of the rest
  of the state (artifacts placed or removed out of band, faults, the directory that
  \<^verbatim>\<open>list_models\<close> creates, log lines).
\<close>

inductive reachable :: "('a, 'm, 's) sklearn \<Rightarrow> ('a, 'm, 's) state \<Rightarrow> bool"
  for lib :: "('a, 'm, 's) sklearn" where
  initial: "loaded_models s = [] \<Longrightarrow> scalers s = [] \<Longrightarrow> reachable lib s"
| step_startup: "reachable lib s \<Longrightarrow> startup s = Inr s' \<Longrightarrow> reachable lib s'"
| step_train:
    "reachable lib s \<Longrightarrow> reachable lib (snd (train_model lib trained_at saved_at data s))"
| step_predict: "reachable lib s \<Longrightarrow> reachable lib (snd (predict lib now pdata s))"
| step_load: "reachable lib s \<Longrightarrow> reachable lib (snd (load_model_endpoint model_name s))"
| step_unload: "reachable lib s \<Longrightarrow> reachable lib (snd (unload_model model_name s))"
| step_medium:
    "reachable lib s \<Longrightarrow> loaded_models s' = loaded_models s \<Longrightarrow> scalers s' = scalers s \<Longrightarrow>
     reachable lib s'"

section \<open>A reference instance of the library\<close>

text \<open>
  The input validation scikit-learn documents, over integer entries, for running the
  service on concrete requests: \<^verbatim>\<open>train_test_split\<close> rejects arrays without a
  length, arrays of different lengths and an empty training part
  (\<open>n_test = ceil(0.2 * n)\<close>, \<open>n_train = n - n_test\<close>); the scaler and the regressor
  accept only a 2-D array with at least one row and one column
  (\<^verbatim>\<open>check_array\<close>: "Expected 2D array, got 1D array instead") whose width is the
  one they were fitted on. A fitted scaler or regressor is represented by that width.
  Which rows the seeded shuffle picks and the numbers the estimators compute are
  placeholders (the first rows train, the scaler is the identity, a prediction is the sum
  of the row, the score is 1).
\<close>

fun num_samples :: "'a ndarray \<Rightarrow> exn + nat" where
  "num_samples (Arr0 x) = Inl TypeError"
| "num_samples (Arr1 v) = Inr (length v)"
| "num_samples (Arr2 rows) = Inr (length rows)"

fun take_rows :: "nat \<Rightarrow> 'a ndarray \<Rightarrow> 'a ndarray" where
  "take_rows n (Arr0 x) = Arr0 x"
| "take_rows n (Arr1 v) = Arr1 (take n v)"
| "take_rows n (Arr2 rows) = Arr2 (take n rows)"

fun drop_rows :: "nat \<Rightarrow> 'a ndarray \<Rightarrow> 'a ndarray" where
  "drop_rows n (Arr0 x) = Arr0 x"
| "drop_rows n (Arr1 v) = Arr1 (drop n v)"
| "drop_rows n (Arr2 rows) = Arr2 (drop n rows)"

definition ref_split ::
  "'a ndarray \<Rightarrow> 'a ndarray \<Rightarrow> exn + ('a ndarray \<times> 'a ndarray \<times> 'a ndarray \<times> 'a ndarray)" where
  "ref_split X y =
     (case num_samples X of
        Inl e \<Rightarrow> Inl e
      | Inr n \<Rightarrow>
     (case num_samples y of
        Inl e \<Rightarrow> Inl e
      | Inr k \<Rightarrow>
          if n \<noteq> k then Inl ValueError
          else if n - (n + 4) div 5 = 0 then Inl ValueError
          else Inr (take_rows (n - (n + 4) div 5) X, drop_rows (n - (n + 4) div 5) X,
                    take_rows (n - (n + 4) div 5) y, drop_rows (n - (n + 4) div 5) y)))"

fun check_array :: "'a ndarray \<Rightarrow> exn + nat" where
  "check_array (Arr0 x) = Inl ValueError"
| "check_array (Arr1 v) = Inl ValueError"
| "check_array (Arr2 []) = Inl ValueError"
| "check_array (Arr2 (r # rs)) = (if r = [] then Inl ValueError else Inr (length r))"

definition check_width :: "nat \<Rightarrow> 'a ndarray \<Rightarrow> exn + 'a list list" where
  "check_width d X =
     (case check_array X of
        Inl e \<Rightarrow> Inl e
      | Inr d' \<Rightarrow>
          if d' \<noteq> d then Inl ValueError
          else (case X of Arr2 rows \<Rightarrow> Inr rows | Arr1 v \<Rightarrow> Inl ValueError
                | Arr0 x \<Rightarrow> Inl ValueError))"

definition ref_sklearn :: "(int, nat, nat) sklearn" where
  "ref_sklearn =
     \<lparr>train_test_split = ref_split,
      scaler_fit_transform =
        (\<lambda>X. case check_array X of Inl e \<Rightarrow> Inl e | Inr d \<Rightarrow> Inr (d, X)),
      scaler_transform =
        (\<lambda>d X. case check_width d X of Inl e \<Rightarrow> Inl e | Inr rows \<Rightarrow> Inr (Arr2 rows)),
      model_fit =
        (\<lambda>X y. case check_array X of
                  Inl e \<Rightarrow> Inl e
                | Inr d \<Rightarrow> if num_samples y = num_samples X then Inr d else Inl ValueError),
      model_score =
        (\<lambda>d X y. case check_width d X of
                    Inl e \<Rightarrow> Inl e
                  | Inr rows \<Rightarrow> if num_samples y = Inr (length rows) then Inr 1
                                else Inl ValueError),
      model_predict =
        (\<lambda>d X. case check_width d X of
                  Inl e \<Rightarrow> Inl e
                | Inr rows \<Rightarrow> Inr (Arr1 (map sum_list rows)))\<rparr>"

text \<open>The empty storage directory of a fresh deployment, without faults.\<close>

definition fresh :: "(int, nat, nat) state" where
  "fresh =
     \<lparr>loaded_models = [], scalers = [], dir_exists = False, files = [],
      mkdir_fails = False, listdir_fails = False, unwritable = {},
      load_trace = [], log_lines = []\<rparr>"

text \<open>
  A storage directory with a model and its scaler (\<open>good\<close>), a model saved without a
  scaler (\<open>raw\<close>), an unreadable model artifact (\<open>bad\<close>), a model whose scaler
  artifact is unreadable (\<open>half\<close>), a model whose name contains the artifact suffix
  (\<open>a.joblib.b\<close>) and a model whose name ends like a scaler artifact (\<open>x_scaler\<close>).
\<close>

definition stocked :: "(int, nat, nat) state" where
  "stocked =
     \<lparr>loaded_models = [], scalers = [], dir_exists = True,
      files =
        [(''good.joblib'', Joblib (Regressor 2)),
         (''good_scaler.joblib'', Joblib (Scaler 2)),
         (''bad.joblib'', Corrupt),
         (''raw.joblib'', Joblib (Regressor 2)),
         (''half.joblib'', Joblib (Regressor 2)),
         (''half_scaler.joblib'', Corrupt),
         (''a.joblib.b.joblib'', Joblib (Regressor 1)),
         (''x_scaler.joblib'', Joblib (Regressor 1))],
      mkdir_fails = False, listdir_fails = False, unwritable = {},
      load_trace = [], log_lines = []\<rparr>"

text \<open>The same directory with \<open>good\<close> and \<open>raw\<close> resident.\<close>

definition serving :: "(int, nat, nat) state" where
  "serving =
     stocked\<lparr>loaded_models := [(''good'', Regressor 2), (''raw'', Regressor 2)],
             scalers := [(''good'', Some (Scaler 2)), (''raw'', None)]\<rparr>"

text \<open>
  The training data of the specification's scenario, a request with a single row, and a
  medium on which the storage directory cannot be created.
\<close>

definition five_rows :: "int train_request" where
  "five_rows =
     \<lparr>t_features = Some (Rows [[1, 2], [2, 3], [3, 4], [4, 5], [5, 6]]),
      t_target = Some (Vector [1, 2, 3, 4, 5]),
      t_model_name = Some ''t1''\<rparr>"

definition one_row :: "int train_request" where
  "one_row =
     \<lparr>t_features = Some (Rows [[1, 2]]), t_target = Some (Vector [1]), t_model_name = None\<rparr>"

definition readonly :: "(int, nat, nat) state" where
  "readonly = fresh\<lparr>mkdir_fails := True\<rparr>"

text \<open>
  The preconditions the specification gives for training: the features are a 2-D matrix
  with at least two rows and the target has as many entries as the features have rows.
\<close>

definition trainer_precondition :: "'a ndarray \<Rightarrow> 'a ndarray \<Rightarrow> bool" where
  "trainer_precondition X y =
     (case X of
        Arr2 rows \<Rightarrow> 2 \<le> length rows \<and> num_samples y = Inr (length rows)
      | Arr1 v \<Rightarrow> False
      | Arr0 x \<Rightarrow> False)"

text \<open>The two dictionaries have the same keys.\<close>

definition registry_paired :: "('a, 'm, 's) state \<Rightarrow> bool" where
  "registry_paired s = (fst ` set (loaded_models s) = fst ` set (scalers s))"

section \<open>Loading: the outcomes of \<open>load_model\<close>\<close>

lemma joblib_load_snd: "snd (joblib_load p s) = s\<lparr>load_trace := load_trace s @ [p]\<rparr>"
  by (simp add: joblib_load_def Let_def split: option.split artifact.split)

lemma joblib_load_fst:
  "fst (joblib_load p s) =
     (if \<not> dir_exists s then Inl OSError
      else case map_of (files s) p of
             None \<Rightarrow> Inl OSError
           | Some (Joblib ob) \<Rightarrow> Inr ob
           | Some (Json md) \<Rightarrow> Inl UnpicklingError
           | Some Corrupt \<Rightarrow> Inl UnpicklingError)"
  by (simp add: joblib_load_def Let_def split: option.split artifact.split)

lemma joblib_load_eq: "joblib_load p s = (fst (joblib_load p s), s\<lparr>load_trace := load_trace s @ [p]\<rparr>)"
  using joblib_load_snd [of p s] by (metis prod.collapse)

lemma path_exists_trace [simp]:
  "path_exists (s\<lparr>load_trace := t\<rparr>) p = path_exists s p"
  by (simp add: path_exists_def)

lemma joblib_load_fst_trace [simp]:
  "fst (joblib_load p (s\<lparr>load_trace := t\<rparr>)) = fst (joblib_load p s)"
  by (simp add: joblib_load_fst)

lemma load_model_not_found:
  "\<not> path_exists s (model_path n) \<Longrightarrow>
   load_model n s = (False, logging WARNING (Model_not_found n) s)"
  by (simp add: load_model_def)

lemma load_model_unreadable:
  "path_exists s (model_path n) \<Longrightarrow> fst (joblib_load (model_path n) s) = Inl e \<Longrightarrow>
   load_model n s =
     (False, logging ERROR (Load_failed n e) (s\<lparr>load_trace := load_trace s @ [model_path n]\<rparr>))"
  by (simp add: load_model_def case_prod_unfold joblib_load_snd)

lemma load_model_no_scaler:
  "path_exists s (model_path n) \<Longrightarrow> fst (joblib_load (model_path n) s) = Inr model \<Longrightarrow>
   \<not> path_exists s (scaler_path n) \<Longrightarrow>
   load_model n s =
     (True, logging INFO (Model_loaded n)
        (s\<lparr>load_trace := load_trace s @ [model_path n],
           loaded_models := AList.update n model (loaded_models s),
           scalers := AList.update n None (scalers s)\<rparr>))"
  by (simp add: load_model_def case_prod_unfold joblib_load_snd)

lemma load_model_scaler_unreadable:
  "path_exists s (model_path n) \<Longrightarrow> fst (joblib_load (model_path n) s) = Inr model \<Longrightarrow>
   path_exists s (scaler_path n) \<Longrightarrow> fst (joblib_load (scaler_path n) s) = Inl e \<Longrightarrow>
   load_model n s =
     (False, logging ERROR (Load_failed n e)
        (s\<lparr>load_trace := load_trace s @ [model_path n, scaler_path n]\<rparr>))"
  by (simp add: load_model_def case_prod_unfold joblib_load_snd)

lemma load_model_with_scaler:
  "path_exists s (model_path n) \<Longrightarrow> fst (joblib_load (model_path n) s) = Inr model \<Longrightarrow>
   path_exists s (scaler_path n) \<Longrightarrow> fst (joblib_load (scaler_path n) s) = Inr sc \<Longrightarrow>
   load_model n s =
     (True, logging INFO (Model_loaded n)
        (s\<lparr>load_trace := load_trace s @ [model_path n, scaler_path n],
           loaded_models := AList.update n model (loaded_models s),
           scalers := AList.update n (Some sc) (scalers s)\<rparr>))"
  by (simp add: load_model_def case_prod_unfold joblib_load_snd)

text \<open>The five outcomes of load_model.\<close>

lemma load_model_outcomes:
  obtains
    (not_found) "\<not> path_exists s (model_path n)"
      "load_model n s = (False, logging WARNING (Model_not_found n) s)"
  | (unreadable) e where "path_exists s (model_path n)"
      "fst (joblib_load (model_path n) s) = Inl e"
      "load_model n s =
         (False, logging ERROR (Load_failed n e)
            (s\<lparr>load_trace := load_trace s @ [model_path n]\<rparr>))"
  | (no_scaler) model where "path_exists s (model_path n)"
      "fst (joblib_load (model_path n) s) = Inr model"
      "\<not> path_exists s (scaler_path n)"
      "load_model n s =
         (True, logging INFO (Model_loaded n)
            (s\<lparr>load_trace := load_trace s @ [model_path n],
               loaded_models := AList.update n model (loaded_models s),
               scalers := AList.update n None (scalers s)\<rparr>))"
  | (scaler_unreadable) model e where "path_exists s (model_path n)"
      "fst (joblib_load (model_path n) s) = Inr model"
      "path_exists s (scaler_path n)"
      "fst (joblib_load (scaler_path n) s) = Inl e"
      "load_model n s =
         (False, logging ERROR (Load_failed n e)
            (s\<lparr>load_trace := load_trace s @ [model_path n, scaler_path n]\<rparr>))"
  | (with_scaler) model sc where "path_exists s (model_path n)"
      "fst (joblib_load (model_path n) s) = Inr model"
      "path_exists s (scaler_path n)"
      "fst (joblib_load (scaler_path n) s) = Inr sc"
      "load_model n s =
         (True, logging INFO (Model_loaded n)
            (s\<lparr>load_trace := load_trace s @ [model_path n, scaler_path n],
               loaded_models := AList.update n model (loaded_models s),
               scalers := AList.update n (Some sc) (scalers s)\<rparr>))"
proof (cases "path_exists s (model_path n)")
  case False
  then show ?thesis using not_found load_model_not_found by blast
next
  case pm: True
  show ?thesis
  proof (cases "fst (joblib_load (model_path n) s)")
    case (Inl e)
    then show ?thesis using unreadable pm load_model_unreadable by blast
  next
    case m: (Inr model)
    show ?thesis
    proof (cases "path_exists s (scaler_path n)")
      case False
      then show ?thesis using no_scaler pm m load_model_no_scaler by blast
    next
      case ps: True
      show ?thesis
      proof (cases "fst (joblib_load (scaler_path n) s)")
        case (Inl e)
        then show ?thesis using scaler_unreadable pm m ps load_model_scaler_unreadable by blast
      next
        case (Inr sc)
        then show ?thesis using with_scaler pm m ps load_model_with_scaler by blast
      qed
    qed
  qed
qed


text \<open>
  Claim C3. When \<open>load_model\<close> fails, because the model artifact is absent or because
  reading the model or the scaler artifact raises, both dictionaries (and the artifacts)
  are exactly as before. When it succeeds, the model artifact was read, the scaler artifact
  was read if one exists, and the two dictionaries are the old ones with the entry for this
  name set to the objects read.
\<close>

theorem load_model_failure_leaves_registry:
  "(\<not> fst (load_model n s) \<longrightarrow>
      loaded_models (snd (load_model n s)) = loaded_models s \<and>
      scalers (snd (load_model n s)) = scalers s \<and>
      files (snd (load_model n s)) = files s) \<and>
   (fst (load_model n s) \<longrightarrow>
      (\<exists>model scaler.
         path_exists s (model_path n) \<and>
         fst (joblib_load (model_path n) s) = Inr model \<and>
         (if path_exists s (scaler_path n)
          then \<exists>sc. fst (joblib_load (scaler_path n) s) = Inr sc \<and> scaler = Some sc
          else scaler = None) \<and>
         loaded_models (snd (load_model n s)) = AList.update n model (loaded_models s) \<and>
         scalers (snd (load_model n s)) = AList.update n scaler (scalers s)))"
  by (rule load_model_outcomes [of s n]) (simp_all add: logging_def)

theorem load_model_failure_leaves_registry_witness:
  "\<not> fst (load_model ''bad'' stocked) \<and>
   loaded_models (snd (load_model ''bad'' stocked)) = [] \<and>
   scalers (snd (load_model ''bad'' stocked)) = [] \<and>
   \<not> fst (load_model ''half'' stocked) \<and>
   loaded_models (snd (load_model ''half'' stocked)) = [] \<and>
   scalers (snd (load_model ''half'' stocked)) = [] \<and>
   \<not> fst (load_model ''ghost'' stocked) \<and>
   loaded_models (snd (load_model ''ghost'' stocked)) = [] \<and>
   fst (load_model ''good'' stocked) \<and>
   loaded_models (snd (load_model ''good'' stocked)) = [(''good'', Regressor 2)] \<and>
   scalers (snd (load_model ''good'' stocked)) = [(''good'', Some (Scaler 2))]"
proof -
  have bad: "\<not> fst (load_model ''bad'' stocked)"
    by (simp add: load_model_def joblib_load_def path_exists_def model_path_def
                  scaler_path_def stocked_def logging_def)
  have half: "\<not> fst (load_model ''half'' stocked)"
    by (simp add: load_model_def joblib_load_def path_exists_def model_path_def
                  scaler_path_def stocked_def logging_def)
  have ghost: "\<not> fst (load_model ''ghost'' stocked)"
    by (simp add: load_model_def joblib_load_def path_exists_def model_path_def
                  scaler_path_def stocked_def logging_def)
  have good: "fst (load_model ''good'' stocked)"
    by (simp add: load_model_def joblib_load_def path_exists_def model_path_def
                  scaler_path_def stocked_def logging_def)
  have reg: "loaded_models stocked = []" "scalers stocked = []"
    by (simp_all add: stocked_def)
  have g1: "fst (joblib_load (model_path ''good'') stocked) = Inr (Regressor 2)"
    by (simp add: joblib_load_def model_path_def stocked_def)
  have g2: "path_exists stocked (scaler_path ''good'')"
    by (simp add: path_exists_def scaler_path_def stocked_def)
  have g3: "fst (joblib_load (scaler_path ''good'') stocked) = Inr (Scaler 2)"
    by (simp add: joblib_load_def scaler_path_def stocked_def)
  show ?thesis
    using load_model_failure_leaves_registry [of "''bad''" stocked]
      load_model_failure_leaves_registry [of "''half''" stocked]
      load_model_failure_leaves_registry [of "''ghost''" stocked]
      load_model_failure_leaves_registry [of "''good''" stocked]
      bad half ghost good reg g1 g2 g3
    by auto
qed

section \<open>Unloading\<close>

lemma delete_filter: "AList.delete k al = filter (\<lambda>p. fst p \<noteq> k) al"
  by (induction al) auto

lemma unload_model_state:
  "snd (unload_model n s) =
     s\<lparr>loaded_models := AList.delete n (loaded_models s),
       scalers := AList.delete n (scalers s)\<rparr>"
  by (simp add: unload_model_def Let_def)

text \<open>
  Claim C6. \<open>unload_model\<close> always answers 200 with the unloaded message. It removes
  the entry of this name from both dictionaries and nothing else: every other name keeps
  its entry, and when the name is in neither dictionary the state is unchanged. A second
  unload of the same name changes nothing more. Artifacts, the directory, the load trace
  and the log are as before.
\<close>

theorem unload_model_idempotent_total:
  "fst (unload_model n s) = (200, Message_unloaded n) \<and>
   loaded_models (snd (unload_model n s)) = filter (\<lambda>p. fst p \<noteq> n) (loaded_models s) \<and>
   scalers (snd (unload_model n s)) = filter (\<lambda>p. fst p \<noteq> n) (scalers s) \<and>
   n \<notin> fst ` set (loaded_models (snd (unload_model n s))) \<and>
   n \<notin> fst ` set (scalers (snd (unload_model n s))) \<and>
   (\<forall>k. k \<noteq> n \<longrightarrow>
      map_of (loaded_models (snd (unload_model n s))) k = map_of (loaded_models s) k \<and>
      map_of (scalers (snd (unload_model n s))) k = map_of (scalers s) k) \<and>
   (n \<notin> fst ` set (loaded_models s) \<and> n \<notin> fst ` set (scalers s) \<longrightarrow>
      snd (unload_model n s) = s) \<and>
   snd (unload_model n (snd (unload_model n s))) = snd (unload_model n s) \<and>
   files (snd (unload_model n s)) = files s \<and>
   dir_exists (snd (unload_model n s)) = dir_exists s \<and>
   load_trace (snd (unload_model n s)) = load_trace s \<and>
   log_lines (snd (unload_model n s)) = log_lines s"
proof -
  have r: "fst (unload_model n s) = (200, Message_unloaded n)"
    by (simp add: unload_model_def Let_def)
  show ?thesis
    unfolding unload_model_state r
    by (simp add: delete_filter [symmetric] delete_idem delete_notin_dom)
qed

theorem unload_model_idempotent_total_witness:
  "''ghost'' \<notin> fst ` set (loaded_models serving) \<and> ''ghost'' \<notin> fst ` set (scalers serving) \<and>
   snd (unload_model ''ghost'' serving) = serving \<and>
   loaded_models (snd (unload_model ''good'' serving)) = [(''raw'', Regressor 2)] \<and>
   scalers (snd (unload_model ''good'' serving)) = [(''raw'', None)] \<and>
   map_of (loaded_models (snd (unload_model ''good'' serving))) ''raw'' = Some (Regressor 2)"
proof -
  have a: "''ghost'' \<notin> fst ` set (loaded_models serving)" "''ghost'' \<notin> fst ` set (scalers serving)"
    by (simp_all add: serving_def stocked_def)
  have b: "loaded_models serving = [(''good'', Regressor 2), (''raw'', Regressor 2)]"
    "scalers serving = [(''good'', Some (Scaler 2)), (''raw'', None)]"
    by (simp_all add: serving_def)
  show ?thesis
    using unload_model_idempotent_total [of "''ghost''" serving]
      unload_model_idempotent_total [of "''good''" serving] a b
    by simp
qed

section \<open>Saving\<close>

lemma paths_distinct [simp]:
  "model_path n \<noteq> scaler_path n" "scaler_path n \<noteq> model_path n"
  "model_path n \<noteq> metadata_path n" "metadata_path n \<noteq> model_path n"
  "scaler_path n \<noteq> metadata_path n" "metadata_path n \<noteq> scaler_path n"
  by (simp_all add: model_path_def scaler_path_def metadata_path_def)

lemma write_file_cases:
  "write_file p c s =
     (if dir_exists s \<and> p \<notin> unwritable s
      then Inr (s\<lparr>files := AList.update p c (files s)\<rparr>) else Inl OSError)"
  by (simp add: write_file_def)

lemma save_model_success:
  assumes "dir_exists s \<or> \<not> mkdir_fails s"
    and "model_path n \<notin> unwritable s"
    and "scaler \<noteq> None \<longrightarrow> scaler_path n \<notin> unwritable s"
    and "metadata \<noteq> None \<and> metadata \<noteq> Some [] \<longrightarrow> metadata_path n \<notin> unwritable s"
  shows "fst (fst (save_model saved_at model scaler n metadata s))"
  using assms
  by (cases scaler; cases metadata)
     (auto simp: save_model_def ensure_model_directory_def write_file_cases logging_def Let_def)


lemma save_model_written:
  assumes "fst (fst (save_model saved_at model scaler n metadata s))"
  shows "dir_exists (snd (save_model saved_at model scaler n metadata s))"
    and "map_of (files (snd (save_model saved_at model scaler n metadata s))) (model_path n) =
           Some (Joblib model)"
    and "scaler = Some sc \<Longrightarrow>
         map_of (files (snd (save_model saved_at model scaler n metadata s))) (scaler_path n) =
           Some (Joblib sc)"
    and "metadata = Some md \<Longrightarrow> md \<noteq> [] \<Longrightarrow>
         map_of (files (snd (save_model saved_at model scaler n metadata s))) (metadata_path n) =
           Some (Json (AList.update ''saved_at'' (MStr saved_at) md)) \<and>
         snd (fst (save_model saved_at model scaler n metadata s)) =
           Some (AList.update ''saved_at'' (MStr saved_at) md)"
  using assms
  by (cases scaler; cases metadata;
      auto simp: save_model_def ensure_model_directory_def write_file_cases logging_def Let_def
                 update_conv' split: if_splits)+

lemma save_model_frame:
  shows "scaler = None \<Longrightarrow>
         map_of (files (snd (save_model saved_at model scaler n metadata s))) (scaler_path n) =
           map_of (files s) (scaler_path n)"
    and "metadata = None \<or> metadata = Some [] \<Longrightarrow>
         map_of (files (snd (save_model saved_at model scaler n metadata s))) (metadata_path n) =
           map_of (files s) (metadata_path n)"
    and "p \<noteq> model_path n \<Longrightarrow> p \<noteq> scaler_path n \<Longrightarrow> p \<noteq> metadata_path n \<Longrightarrow>
         map_of (files (snd (save_model saved_at model scaler n metadata s))) p =
           map_of (files s) p"
    and "loaded_models (snd (save_model saved_at model scaler n metadata s)) = loaded_models s"
    and "scalers (snd (save_model saved_at model scaler n metadata s)) = scalers s"
  by (cases scaler; cases metadata;
      auto simp: save_model_def ensure_model_directory_def write_file_cases logging_def Let_def
                 update_conv' split: if_splits)+


text \<open>
  Claim C8. On a medium without faults \<open>save_model\<close> succeeds. Whenever it succeeds the
  storage directory exists, the model artifact holds the model, the scaler artifact holds
  the scaler if one was given, and the metadata record holds the given metadata with
  \<open>saved_at\<close> set, if metadata was given (Python's truth test: given and not empty).
  Without a scaler the scaler artifact is as before, without metadata the metadata record
  is as before, and no other file changes, whether the call succeeds or not.
\<close>

theorem save_model_writes:
  "((dir_exists s \<or> \<not> mkdir_fails s) \<and> model_path n \<notin> unwritable s \<and>
    (scaler \<noteq> None \<longrightarrow> scaler_path n \<notin> unwritable s) \<and>
    (metadata \<noteq> None \<and> metadata \<noteq> Some [] \<longrightarrow> metadata_path n \<notin> unwritable s) \<longrightarrow>
      fst (fst (save_model saved_at model scaler n metadata s))) \<and>
   (fst (fst (save_model saved_at model scaler n metadata s)) \<longrightarrow>
      dir_exists (snd (save_model saved_at model scaler n metadata s)) \<and>
      map_of (files (snd (save_model saved_at model scaler n metadata s))) (model_path n) =
        Some (Joblib model) \<and>
      (\<forall>sc. scaler = Some sc \<longrightarrow>
         map_of (files (snd (save_model saved_at model scaler n metadata s))) (scaler_path n) =
           Some (Joblib sc)) \<and>
      (\<forall>md. metadata = Some md \<and> md \<noteq> [] \<longrightarrow>
         map_of (files (snd (save_model saved_at model scaler n metadata s))) (metadata_path n) =
           Some (Json (AList.update ''saved_at'' (MStr saved_at) md)))) \<and>
   (scaler = None \<longrightarrow>
      map_of (files (snd (save_model saved_at model scaler n metadata s))) (scaler_path n) =
        map_of (files s) (scaler_path n)) \<and>
   (metadata = None \<or> metadata = Some [] \<longrightarrow>
      map_of (files (snd (save_model saved_at model scaler n metadata s))) (metadata_path n) =
        map_of (files s) (metadata_path n)) \<and>
   (\<forall>p. p \<noteq> model_path n \<and> p \<noteq> scaler_path n \<and> p \<noteq> metadata_path n \<longrightarrow>
      map_of (files (snd (save_model saved_at model scaler n metadata s))) p =
        map_of (files s) p)"
  using save_model_success [where s = s and n = n and scaler = scaler
        and metadata = metadata and saved_at = saved_at and model = model]
    save_model_written [where s = s and n = n and scaler = scaler
        and metadata = metadata and saved_at = saved_at and model = model]
    save_model_frame [where s = s and n = n and scaler = scaler
        and metadata = metadata and saved_at = saved_at and model = model]
  by blast

theorem save_model_writes_witness:
  "fst (fst (save_model ''t1'' (Regressor 2) None ''m'' None fresh)) \<and>
   map_of (files (snd (save_model ''t1'' (Regressor 2) None ''m'' None fresh))) ''m.joblib'' =
     Some (Joblib (Regressor 2)) \<and>
   map_of (files (snd (save_model ''t1'' (Regressor 2) None ''m'' None fresh)))
     ''m_scaler.joblib'' = None \<and>
   map_of (files (snd (save_model ''t1'' (Regressor 2) None ''m'' None fresh)))
     ''m_metadata.json'' = None \<and>
   dir_exists (snd (save_model ''t1'' (Regressor 2) None ''m'' None fresh)) \<and>
   fst (fst (save_model ''t1'' (Regressor 2) (Some (Scaler 2)) ''m''
              (Some [(''model_type'', MStr ''RandomForestRegressor'')]) fresh)) \<and>
   map_of (files (snd (save_model ''t1'' (Regressor 2) (Some (Scaler 2)) ''m''
              (Some [(''model_type'', MStr ''RandomForestRegressor'')]) fresh)))
     ''m_scaler.joblib'' = Some (Joblib (Scaler 2)) \<and>
   map_of (files (snd (save_model ''t1'' (Regressor 2) (Some (Scaler 2)) ''m''
              (Some [(''model_type'', MStr ''RandomForestRegressor'')]) fresh)))
     ''m_metadata.json'' =
     Some (Json [(''model_type'', MStr ''RandomForestRegressor''), (''saved_at'', MStr ''t1'')])"
proof -
  have f: "\<not> mkdir_fails fresh" "unwritable fresh = {}" "files fresh = []"
    by (simp_all add: fresh_def)
  have p: "model_path ''m'' = ''m.joblib''" "scaler_path ''m'' = ''m_scaler.joblib''"
    "metadata_path ''m'' = ''m_metadata.json''"
    by (simp_all add: model_path_def scaler_path_def metadata_path_def)
  show ?thesis
    using save_model_writes [where s = fresh and n = "''m''" and scaler = None
        and metadata = None and saved_at = "''t1''" and model = "Regressor 2"]
      save_model_writes [where s = fresh and n = "''m''" and scaler = "Some (Scaler 2)"
        and metadata = "Some [(''model_type'', MStr ''RandomForestRegressor'')]"
        and saved_at = "''t1''" and model = "Regressor 2"]
    by (simp add: f p)
qed

section \<open>Training\<close>

lemma train_model_missing:
  "request = Null \<or> (\<exists>d. request = Object d \<and> (t_features d = None \<or> t_target d = None)) \<Longrightarrow>
   train_model lib trained_at saved_at request s = ((400, Error_train_fields), s)"
  by (auto simp: train_model_def split: option.splits)

lemma train_model_get_json_raises:
  "train_model lib trained_at saved_at (Raises e) s =
     ((500, Error_exception e), logging ERROR Traceback (logging ERROR (Train_failed e) s))"
  by (simp add: train_model_def)

lemma train_model_features_raise:
  "t_features d = Some Xj \<Longrightarrow> t_target d = Some yj \<Longrightarrow> np_array Xj = Inl e \<Longrightarrow>
   train_model lib trained_at saved_at (Object d) s =
     ((500, Error_exception e), logging ERROR Traceback (logging ERROR (Train_failed e) s))"
  by (simp add: train_model_def)

lemma train_model_target_raises:
  "t_features d = Some Xj \<Longrightarrow> t_target d = Some yj \<Longrightarrow> np_array Xj = Inr X \<Longrightarrow>
   np_array yj = Inl e \<Longrightarrow>
   train_model lib trained_at saved_at (Object d) s =
     ((500, Error_exception e), logging ERROR Traceback (logging ERROR (Train_failed e) s))"
  by (simp add: train_model_def)

lemma train_model_raises:
  "t_features d = Some Xj \<Longrightarrow> t_target d = Some yj \<Longrightarrow> np_array Xj = Inr X \<Longrightarrow>
   np_array yj = Inr y \<Longrightarrow> fit_pipeline lib trained_at X y = Inl e \<Longrightarrow>
   train_model lib trained_at saved_at (Object d) s =
     ((500, Error_exception e), logging ERROR Traceback (logging ERROR (Train_failed e) s))"
  by (simp add: train_model_def)

lemma train_model_status:
  "t_features d = Some Xj \<Longrightarrow> t_target d = Some yj \<Longrightarrow>
   fst (fst (train_model lib trained_at saved_at (Object d) s)) = 200 \<or>
   fst (fst (train_model lib trained_at saved_at (Object d) s)) = 500"
  by (simp add: train_model_def Let_def case_prod_unfold split: sum.split)

lemma train_model_fitted:
  "t_features d = Some Xj \<Longrightarrow> t_target d = Some yj \<Longrightarrow> np_array Xj = Inr X \<Longrightarrow>
   np_array yj = Inr y \<Longrightarrow>
   fit_pipeline lib trained_at X y = Inr (model, scaler, metadata) \<Longrightarrow>
   train_model lib trained_at saved_at (Object d) s =
     (if fst (fst (save_model saved_at model (Some scaler)
                     (case t_model_name d of None \<Rightarrow> ''default_model'' | Some n \<Rightarrow> n)
                     (Some metadata) s))
      then ((200, Trained (case t_model_name d of None \<Rightarrow> ''default_model'' | Some n \<Rightarrow> n)
                    (case snd (fst (save_model saved_at model (Some scaler)
                          (case t_model_name d of None \<Rightarrow> ''default_model'' | Some n \<Rightarrow> n)
                          (Some metadata) s)) of None \<Rightarrow> [] | Some md \<Rightarrow> md)),
            (snd (save_model saved_at model (Some scaler)
                    (case t_model_name d of None \<Rightarrow> ''default_model'' | Some n \<Rightarrow> n)
                    (Some metadata) s))
              \<lparr>loaded_models :=
                 AList.update (case t_model_name d of None \<Rightarrow> ''default_model'' | Some n \<Rightarrow> n)
                   model (loaded_models s),
               scalers :=
                 AList.update (case t_model_name d of None \<Rightarrow> ''default_model'' | Some n \<Rightarrow> n)
                   (Some scaler) (scalers s)\<rparr>)
      else ((500, Error_saving),
            snd (save_model saved_at model (Some scaler)
                   (case t_model_name d of None \<Rightarrow> ''default_model'' | Some n \<Rightarrow> n)
                   (Some metadata) s)))"
  by (simp add: train_model_def Let_def case_prod_unfold save_model_frame)

text \<open>
  Claim C10. When the request carries features and target that convert to arrays and
  splitting, scaling, fitting and scoring succeed but \<open>save_model\<close> reports failure,
  \<open>train_model\<close> answers 500 and both dictionaries are as before. The entry for the name
  is set only when \<open>save_model\<close> reported success, and then the model and scaler
  artifacts of that name hold the registered objects.
\<close>

theorem train_model_save_failure:
  assumes "t_features d = Some Xj" and "t_target d = Some yj"
    and "np_array Xj = Inr X" and "np_array yj = Inr y"
    and "fit_pipeline lib trained_at X y = Inr (model, scaler, metadata)"
    and "name = (case t_model_name d of None \<Rightarrow> ''default_model'' | Some n \<Rightarrow> n)"
  shows
    "(\<not> fst (fst (save_model saved_at model (Some scaler) name (Some metadata) s)) \<longrightarrow>
        fst (train_model lib trained_at saved_at (Object d) s) = (500, Error_saving) \<and>
        loaded_models (snd (train_model lib trained_at saved_at (Object d) s)) = loaded_models s \<and>
        scalers (snd (train_model lib trained_at saved_at (Object d) s)) = scalers s) \<and>
     (fst (fst (save_model saved_at model (Some scaler) name (Some metadata) s)) \<longrightarrow>
        fst (fst (train_model lib trained_at saved_at (Object d) s)) = 200 \<and>
        loaded_models (snd (train_model lib trained_at saved_at (Object d) s)) =
          AList.update name model (loaded_models s) \<and>
        scalers (snd (train_model lib trained_at saved_at (Object d) s)) =
          AList.update name (Some scaler) (scalers s) \<and>
        map_of (files (snd (train_model lib trained_at saved_at (Object d) s))) (model_path name) =
          Some (Joblib model) \<and>
        map_of (files (snd (train_model lib trained_at saved_at (Object d) s))) (scaler_path name) =
          Some (Joblib scaler))"
proof (cases "fst (fst (save_model saved_at model (Some scaler) name (Some metadata) s))")
  case True
  then show ?thesis
    using train_model_fitted [OF assms(1,2,3,4,5), of saved_at s] assms(6)
      save_model_written(2) [OF True] save_model_written(3) [OF True]
    by simp
next
  case False
  then show ?thesis
    using train_model_fitted [OF assms(1,2,3,4,5), of saved_at s] assms(6)
    by (simp add: save_model_frame)
qed

lemma five_rows_arrays:
  "np_array (Rows [[1, 2], [2, 3], [3, 4], [4, 5], [5, 6]]) =
     Inr (Arr2 [[1, 2], [2, 3], [3, 4], [4, 5], [5, 6 :: int]])"
  "np_array (Vector [1, 2, 3, 4, 5]) = Inr (Arr1 [1, 2, 3, 4, 5 :: int])"
  by simp_all

lemma five_rows_fitted:
  "fit_pipeline ref_sklearn ''t0'' (Arr2 [[1, 2], [2, 3], [3, 4], [4, 5], [5, 6]])
     (Arr1 [1, 2, 3, 4, 5]) =
   Inr (Regressor 2, Scaler 2,
        [(''model_type'', MStr ''RandomForestRegressor''), (''features_count'', MInt 2),
         (''samples_count'', MInt 5), (''train_score'', MFloat 1), (''test_score'', MFloat 1),
         (''trained_at'', MStr ''t0'')])"
  by (simp add: fit_pipeline_def ref_sklearn_def ref_split_def check_width_def shape_at_def)

theorem train_model_save_failure_witness:
  "fst (train_model ref_sklearn ''t0'' ''t1'' (Object five_rows) readonly) = (500, Error_saving) \<and>
   loaded_models (snd (train_model ref_sklearn ''t0'' ''t1'' (Object five_rows) readonly)) = [] \<and>
   scalers (snd (train_model ref_sklearn ''t0'' ''t1'' (Object five_rows) readonly)) = [] \<and>
   fst (fst (train_model ref_sklearn ''t0'' ''t1'' (Object five_rows) fresh)) = 200 \<and>
   loaded_models (snd (train_model ref_sklearn ''t0'' ''t1'' (Object five_rows) fresh)) =
     [(''t1'', Regressor 2)] \<and>
   scalers (snd (train_model ref_sklearn ''t0'' ''t1'' (Object five_rows) fresh)) =
     [(''t1'', Some (Scaler 2))]"
proof -
  have d: "t_features five_rows = Some (Rows [[1, 2], [2, 3], [3, 4], [4, 5], [5, 6]])"
    "t_target five_rows = Some (Vector [1, 2, 3, 4, 5])"
    by (simp_all add: five_rows_def)
  have n: "''t1'' = (case t_model_name five_rows of None \<Rightarrow> ''default_model'' | Some n \<Rightarrow> n)"
    by (simp add: five_rows_def)
  have ro: "\<not> fst (fst (save_model ''t1'' (Regressor 2) (Some (Scaler 2)) ''t1'' md readonly))"
    for md :: "int metadata option"
    by (simp add: save_model_def ensure_model_directory_def readonly_def fresh_def)
  have fr: "fst (fst (save_model ''t1'' (Regressor 2) (Some (Scaler 2)) ''t1'' md fresh))"
    for md :: "int metadata option"
    by (rule save_model_success) (simp_all add: fresh_def)
  have reg: "loaded_models readonly = []" "scalers readonly = []"
    "loaded_models fresh = []" "scalers fresh = []"
    by (simp_all add: readonly_def fresh_def)
  show ?thesis
    using train_model_save_failure [OF d five_rows_arrays five_rows_fitted n, of "''t1''" readonly]
      train_model_save_failure [OF d five_rows_arrays five_rows_fitted n, of "''t1''" fresh]
      ro fr reg
    by simp
qed


lemma ref_split_rejects:
  "\<not> trainer_precondition X y \<Longrightarrow> ndim X = 2 \<Longrightarrow> \<exists>e. ref_split X y = Inl e"
  by (cases X; cases y)
     (auto simp: trainer_precondition_def ref_split_def split: sum.splits)

lemma ref_sklearn_rejects:
  assumes "\<not> trainer_precondition X y"
  shows "\<exists>e. fit_pipeline ref_sklearn t X y = Inl e"
proof (cases X)
  case (Arr0 x)
  then show ?thesis by (simp add: fit_pipeline_def ref_sklearn_def ref_split_def)
next
  case (Arr1 v)
  then show ?thesis
    by (cases y)
       (auto simp: fit_pipeline_def ref_sklearn_def ref_split_def split: sum.splits)
next
  case (Arr2 rows)
  then obtain e where "ref_split X y = Inl e"
    using ref_split_rejects [OF assms] by auto
  then show ?thesis by (simp add: fit_pipeline_def ref_sklearn_def)
qed

text \<open>
  Claim C2 says that a request whose features or target violate the training
  preconditions fails with 400. It does not: the only 400 of \<open>train_model\<close> is the test
  for missing fields, and a single-row request passes that test, makes
  \<^verbatim>\<open>train_test_split\<close> raise and is answered 500 by the handler's
  \<^verbatim>\<open>except Exception\<close>.
\<close>

theorem train_model_shape_violation_counterexample:
  "t_features one_row = Some (Rows [[1, 2]]) \<and> t_target one_row = Some (Vector [1]) \<and>
   np_array (Rows [[1, 2 :: int]]) = Inr (Arr2 [[1, 2]]) \<and>
   np_array (Vector [1 :: int]) = Inr (Arr1 [1]) \<and>
   \<not> trainer_precondition (Arr2 [[1, 2 :: int]]) (Arr1 [1 :: int]) \<and>
   fst (train_model ref_sklearn ''t0'' ''t1'' (Object one_row) fresh) =
     (500, Error_exception ValueError) \<and>
   fst (fst (train_model ref_sklearn ''t0'' ''t1'' (Object one_row) fresh)) \<noteq> 400"
  by (simp add: one_row_def trainer_precondition_def train_model_def fit_pipeline_def
                ref_sklearn_def ref_split_def)

text \<open>
  Claim C2, amended. A request whose JSON body is \<^verbatim>\<open>null\<close> or is an object without
  the features or the target field is answered 400 and the state is unchanged. A request
  with both fields is never answered 400; whenever \<^verbatim>\<open>np.array\<close> raises on the
  features or on the target, or the split, the scaler or the regressor raises (as
  scikit-learn does when the preconditions are violated, see \<open>ref_sklearn_rejects\<close>),
  the answer is 500 with that exception, no artifact is written and both dictionaries are
  as before.
\<close>

theorem train_model_invalid_input:
  "(request = Null \<or> (\<exists>d. request = Object d \<and> (t_features d = None \<or> t_target d = None)) \<longrightarrow>
      train_model lib trained_at saved_at request s = ((400, Error_train_fields), s)) \<and>
   (\<forall>d Xj yj. request = Object d \<and> t_features d = Some Xj \<and> t_target d = Some yj \<longrightarrow>
      fst (fst (train_model lib trained_at saved_at request s)) \<noteq> 400 \<and>
      (\<forall>e. np_array Xj = Inl e \<or>
           (\<exists>X. np_array Xj = Inr X \<and>
              (np_array yj = Inl e \<or>
               (\<exists>y. np_array yj = Inr y \<and> fit_pipeline lib trained_at X y = Inl e))) \<longrightarrow>
         fst (train_model lib trained_at saved_at request s) = (500, Error_exception e) \<and>
         files (snd (train_model lib trained_at saved_at request s)) = files s \<and>
         dir_exists (snd (train_model lib trained_at saved_at request s)) = dir_exists s \<and>
         loaded_models (snd (train_model lib trained_at saved_at request s)) = loaded_models s \<and>
         scalers (snd (train_model lib trained_at saved_at request s)) = scalers s))"
proof (intro conjI allI impI)
  assume "request = Null \<or> (\<exists>d. request = Object d \<and> (t_features d = None \<or> t_target d = None))"
  then show "train_model lib trained_at saved_at request s = ((400, Error_train_fields), s)"
    by (rule train_model_missing)
next
  fix d Xj yj
  assume "request = Object d \<and> t_features d = Some Xj \<and> t_target d = Some yj"
  then show "fst (fst (train_model lib trained_at saved_at request s)) \<noteq> 400"
    using train_model_status [of d Xj yj lib trained_at saved_at s] by auto
next
  fix d Xj yj e
  assume a: "request = Object d \<and> t_features d = Some Xj \<and> t_target d = Some yj"
    and e: "np_array Xj = Inl e \<or>
           (\<exists>X. np_array Xj = Inr X \<and>
              (np_array yj = Inl e \<or>
               (\<exists>y. np_array yj = Inr y \<and> fit_pipeline lib trained_at X y = Inl e)))"
  have r: "train_model lib trained_at saved_at request s =
     ((500, Error_exception e), logging ERROR Traceback (logging ERROR (Train_failed e) s))"
  proof -
    from a have q: "request = Object d" and x: "t_features d = Some Xj"
      and y: "t_target d = Some yj"
      by simp_all
    from e consider
        (features) "np_array Xj = Inl e"
      | (target) X where "np_array Xj = Inr X" "np_array yj = Inl e"
      | (fit) X y where "np_array Xj = Inr X" "np_array yj = Inr y"
          "fit_pipeline lib trained_at X y = Inl e"
      by blast
    then show ?thesis
    proof cases
      case features
      then show ?thesis
        unfolding q by (rule train_model_features_raise [OF x y])
    next
      case target
      then show ?thesis
        unfolding q by (rule train_model_target_raises [OF x y])
    next
      case fit
      then show ?thesis
        unfolding q by (rule train_model_raises [OF x y])
    qed
  qed
  show "fst (train_model lib trained_at saved_at request s) = (500, Error_exception e)"
    and "files (snd (train_model lib trained_at saved_at request s)) = files s"
    and "dir_exists (snd (train_model lib trained_at saved_at request s)) = dir_exists s"
    and "loaded_models (snd (train_model lib trained_at saved_at request s)) = loaded_models s"
    and "scalers (snd (train_model lib trained_at saved_at request s)) = scalers s"
    by (simp_all add: r logging_def)
qed

theorem train_model_invalid_input_witness:
  "train_model ref_sklearn ''t0'' ''t1''
     (Object \<lparr>t_features = Some (Rows [[1]]), t_target = None, t_model_name = None\<rparr>) fresh =
     ((400, Error_train_fields), fresh) \<and>
   train_model ref_sklearn ''t0'' ''t1'' Null fresh = ((400, Error_train_fields), fresh) \<and>
   fst (train_model ref_sklearn ''t0'' ''t1'' (Object one_row) fresh) =
     (500, Error_exception ValueError) \<and>
   files (snd (train_model ref_sklearn ''t0'' ''t1'' (Object one_row) fresh)) = [] \<and>
   loaded_models (snd (train_model ref_sklearn ''t0'' ''t1'' (Object one_row) fresh)) = [] \<and>
   fst (train_model ref_sklearn ''t0'' ''t1''
     (Object \<lparr>t_features = Some (Rows [[1, 2], [3]]), t_target = Some (Vector [1, 2]),
        t_model_name = None\<rparr>) fresh) = (500, Error_exception ValueError)"
proof -
  have e: "fit_pipeline ref_sklearn ''t0'' (Arr2 [[1, 2]]) (Arr1 [1]) = Inl ValueError"
    by (simp add: fit_pipeline_def ref_sklearn_def ref_split_def)
  have d: "t_features one_row = Some (Rows [[1, 2]])" "t_target one_row = Some (Vector [1])"
    by (simp_all add: one_row_def)
  have a: "np_array (Rows [[1, 2 :: int]]) = Inr (Arr2 [[1, 2]])"
    "np_array (Vector [1 :: int]) = Inr (Arr1 [1])"
    "np_array (Rows [[1, 2], [3 :: int]]) = Inl ValueError"
    by simp_all
  have f: "files fresh = []" "loaded_models fresh = []"
    by (simp_all add: fresh_def)
  show ?thesis
    using train_model_invalid_input [where request = "Object \<lparr>t_features = Some (Rows [[1]]),
          t_target = None, t_model_name = None\<rparr>" and lib = ref_sklearn
          and trained_at = "''t0''" and saved_at = "''t1''" and s = fresh]
      train_model_invalid_input [where request = Null and lib = ref_sklearn
          and trained_at = "''t0''" and saved_at = "''t1''" and s = fresh]
      train_model_invalid_input [where request = "Object one_row" and lib = ref_sklearn
          and trained_at = "''t0''" and saved_at = "''t1''" and s = fresh]
      train_model_invalid_input [where request = "Object \<lparr>t_features = Some (Rows [[1, 2], [3]]),
          t_target = Some (Vector [1, 2]), t_model_name = None\<rparr>" and lib = ref_sklearn
          and trained_at = "''t0''" and saved_at = "''t1''" and s = fresh]
      e d a f
    by simp
qed


section \<open>Prediction\<close>

lemma run_inference_registry:
  "loaded_models s' = loaded_models s \<Longrightarrow> scalers s' = scalers s \<Longrightarrow>
   run_inference lib n X s' = run_inference lib n X s"
  by (auto simp: run_inference_def split: option.splits)

lemma predict_get_json_raises:
  "predict lib now (Raises e) s =
     ((500, Error_exception e), logging ERROR Traceback (logging ERROR (Predict_failed e) s))"
  by (simp add: predict_def)

lemma predict_missing:
  "request = Null \<or> (\<exists>d. request = Object d \<and> (p_features d = None \<or> p_model_name d = None)) \<Longrightarrow>
   predict lib now request s = ((400, Error_predict_fields), s)"
  by (auto simp: predict_def split: option.splits)

lemma predict_features_raise:
  "np_array Xj = Inl e \<Longrightarrow>
   predict lib now (Object \<lparr>p_features = Some Xj, p_model_name = Some n\<rparr>) s =
     ((500, Error_exception e), logging ERROR Traceback (logging ERROR (Predict_failed e) s))"
  by (simp add: predict_def)

lemma predict_resident:
  "np_array Xj = Inr X \<Longrightarrow> n \<in> fst ` set (loaded_models s) \<Longrightarrow>
   predict lib now (Object \<lparr>p_features = Some Xj, p_model_name = Some n\<rparr>) s =
     (case run_inference lib n X s of
        Inl e \<Rightarrow> ((500, Error_exception e),
                  logging ERROR Traceback (logging ERROR (Predict_failed e) s))
      | Inr predictions \<Rightarrow> ((200, Predictions predictions n now), s))"
  by (simp add: predict_def)

lemma predict_not_loadable:
  "np_array Xj = Inr X \<Longrightarrow> n \<notin> fst ` set (loaded_models s) \<Longrightarrow>
   \<not> fst (load_model n s) \<Longrightarrow>
   predict lib now (Object \<lparr>p_features = Some Xj, p_model_name = Some n\<rparr>) s =
     ((404, Error_not_loadable n), snd (load_model n s))"
  by (simp add: predict_def case_prod_unfold)

lemma predict_lazy_load:
  "np_array Xj = Inr X \<Longrightarrow> n \<notin> fst ` set (loaded_models s) \<Longrightarrow>
   fst (load_model n s) \<Longrightarrow>
   predict lib now (Object \<lparr>p_features = Some Xj, p_model_name = Some n\<rparr>) s =
     (case run_inference lib n X (snd (load_model n s)) of
        Inl e \<Rightarrow> ((500, Error_exception e),
                  logging ERROR Traceback
                    (logging ERROR (Predict_failed e) (snd (load_model n s))))
      | Inr predictions \<Rightarrow> ((200, Predictions predictions n now), snd (load_model n s)))"
  by (simp add: predict_def case_prod_unfold)

lemma load_model_files [simp]: "files (snd (load_model n s)) = files s"
  by (rule load_model_outcomes [of s n]) (simp_all add: logging_def)

lemma load_model_dir [simp]: "dir_exists (snd (load_model n s)) = dir_exists s"
  by (rule load_model_outcomes [of s n]) (simp_all add: logging_def)

lemma load_model_success_entry:
  "fst (load_model n s) \<Longrightarrow>
   n \<in> fst ` set (loaded_models (snd (load_model n s))) \<and>
   n \<in> fst ` set (scalers (snd (load_model n s))) \<and>
   map_of (loaded_models (snd (load_model n s))) n \<noteq> None \<and>
   load_trace (snd (load_model n s)) =
     load_trace s @ model_path n #
       (if path_exists s (scaler_path n) then [scaler_path n] else [])"
  by (rule load_model_outcomes [of s n]) (simp_all add: logging_def dom_update update_conv')


text \<open>
  Claim C4. A predict request with a model name and with features that are a vector or a
  matrix (\<^verbatim>\<open>np.array\<close> on line 193 returns \<open>X\<close>; when it raises, the request is
  answered 500 before the residency check, see \<open>predict_features_raise\<close>) for a name that
  is not in \<open>loaded_models\<close> and has no model artifact in the store is answered 404 with
  the not-loadable message, so without predictions; dictionaries and artifacts are as
  before. When the lazy \<open>load_model\<close> succeeds, the name is in the dictionaries of the
  state in which inference then runs, and the answer is the outcome of that inference.
\<close>

theorem predict_unknown_model:
  assumes "np_array Xj = Inr X" and "n \<notin> fst ` set (loaded_models s)"
  shows
    "(\<not> path_exists s (model_path n) \<longrightarrow>
        fst (predict lib now (Object \<lparr>p_features = Some Xj, p_model_name = Some n\<rparr>) s) =
          (404, Error_not_loadable n) \<and>
        loaded_models (snd (predict lib now (Object \<lparr>p_features = Some Xj, p_model_name = Some n\<rparr>) s)) =
          loaded_models s \<and>
        scalers (snd (predict lib now (Object \<lparr>p_features = Some Xj, p_model_name = Some n\<rparr>) s)) =
          scalers s \<and>
        files (snd (predict lib now (Object \<lparr>p_features = Some Xj, p_model_name = Some n\<rparr>) s)) =
          files s) \<and>
     (fst (load_model n s) \<longrightarrow>
        n \<in> fst ` set (loaded_models (snd (load_model n s))) \<and>
        loaded_models (snd (predict lib now (Object \<lparr>p_features = Some Xj, p_model_name = Some n\<rparr>) s)) =
          loaded_models (snd (load_model n s)) \<and>
        scalers (snd (predict lib now (Object \<lparr>p_features = Some Xj, p_model_name = Some n\<rparr>) s)) =
          scalers (snd (load_model n s)) \<and>
        (case run_inference lib n X (snd (load_model n s)) of
           Inl e \<Rightarrow>
             fst (predict lib now (Object \<lparr>p_features = Some Xj, p_model_name = Some n\<rparr>) s) =
               (500, Error_exception e)
         | Inr predictions \<Rightarrow>
             fst (predict lib now (Object \<lparr>p_features = Some Xj, p_model_name = Some n\<rparr>) s) =
               (200, Predictions predictions n now)))"
proof (intro conjI impI)
  assume absent: "\<not> path_exists s (model_path n)"
  then have l: "load_model n s = (False, logging WARNING (Model_not_found n) s)"
    by (rule load_model_not_found)
  then have p: "predict lib now (Object \<lparr>p_features = Some Xj, p_model_name = Some n\<rparr>) s =
      ((404, Error_not_loadable n), logging WARNING (Model_not_found n) s)"
    using predict_not_loadable [OF assms, of lib now] by simp
  show "fst (predict lib now (Object \<lparr>p_features = Some Xj, p_model_name = Some n\<rparr>) s) =
          (404, Error_not_loadable n)"
    and "loaded_models (snd (predict lib now (Object \<lparr>p_features = Some Xj, p_model_name = Some n\<rparr>) s)) =
          loaded_models s"
    and "scalers (snd (predict lib now (Object \<lparr>p_features = Some Xj, p_model_name = Some n\<rparr>) s)) =
          scalers s"
    and "files (snd (predict lib now (Object \<lparr>p_features = Some Xj, p_model_name = Some n\<rparr>) s)) =
          files s"
    by (simp_all add: p logging_def)
next
  assume ok: "fst (load_model n s)"
  note p = predict_lazy_load [OF assms ok, of lib now]
  show "n \<in> fst ` set (loaded_models (snd (load_model n s)))"
    using load_model_success_entry [OF ok] by simp
  show "loaded_models (snd (predict lib now (Object \<lparr>p_features = Some Xj, p_model_name = Some n\<rparr>) s)) =
          loaded_models (snd (load_model n s))"
    by (simp add: p logging_def split: sum.split)
  show "scalers (snd (predict lib now (Object \<lparr>p_features = Some Xj, p_model_name = Some n\<rparr>) s)) =
          scalers (snd (load_model n s))"
    by (simp add: p logging_def split: sum.split)
  show "case run_inference lib n X (snd (load_model n s)) of
           Inl e \<Rightarrow>
             fst (predict lib now (Object \<lparr>p_features = Some Xj, p_model_name = Some n\<rparr>) s) =
               (500, Error_exception e)
         | Inr predictions \<Rightarrow>
             fst (predict lib now (Object \<lparr>p_features = Some Xj, p_model_name = Some n\<rparr>) s) =
               (200, Predictions predictions n now)"
    by (simp add: p split: sum.split)
qed


lemma stocked_load_good:
  "load_model ''good'' stocked =
     (True,
      stocked\<lparr>load_trace := [''good.joblib'', ''good_scaler.joblib''],
              loaded_models := [(''good'', Regressor 2)],
              scalers := [(''good'', Some (Scaler 2))],
              log_lines := [(INFO, Model_loaded ''good'')]\<rparr>)"
  by (simp add: load_model_def joblib_load_def path_exists_def model_path_def
                scaler_path_def stocked_def logging_def)

theorem predict_unknown_model_witness:
  "fst (predict ref_sklearn ''t''
          (Object \<lparr>p_features = Some (Rows [[1, 2]]), p_model_name = Some ''ghost''\<rparr>) stocked) =
     (404, Error_not_loadable ''ghost'') \<and>
   loaded_models (snd (predict ref_sklearn ''t''
          (Object \<lparr>p_features = Some (Rows [[1, 2]]), p_model_name = Some ''ghost''\<rparr>) stocked)) = [] \<and>
   fst (predict ref_sklearn ''t''
          (Object \<lparr>p_features = Some (Rows [[1, 2]]), p_model_name = Some ''good''\<rparr>) stocked) =
     (200, Predictions (Arr1 [3]) ''good'' ''t'') \<and>
   loaded_models (snd (predict ref_sklearn ''t''
          (Object \<lparr>p_features = Some (Rows [[1, 2]]), p_model_name = Some ''good''\<rparr>) stocked)) =
     [(''good'', Regressor 2)]"
proof -
  have a: "''ghost'' \<notin> fst ` set (loaded_models stocked)"
    "''good'' \<notin> fst ` set (loaded_models stocked)"
    by (simp_all add: stocked_def)
  have b: "\<not> path_exists stocked (model_path ''ghost'')"
    by (simp add: path_exists_def model_path_def stocked_def)
  have c: "run_inference ref_sklearn ''good'' (Arr2 [[1, 2]]) (snd (load_model ''good'' stocked)) =
      Inr (Arr1 [3])"
    by (simp add: stocked_load_good run_inference_def obj_transform_def obj_predict_def
                  ref_sklearn_def check_width_def)
  have d: "loaded_models stocked = []"
    by (simp add: stocked_def)
  have x: "np_array (Rows [[1, 2 :: int]]) = Inr (Arr2 [[1, 2]])"
    by simp
  show ?thesis
    using predict_unknown_model [OF x a(1), of ref_sklearn "''t''"]
      predict_unknown_model [OF x a(2), of ref_sklearn "''t''"]
      b c d
    by (simp add: stocked_load_good)
qed

lemma predict_registry_after_load:
  assumes "np_array Xj = Inr X" and "n \<notin> fst ` set (loaded_models s)"
    and "fst (load_model n s)"
  shows "loaded_models (snd (predict lib now (Object \<lparr>p_features = Some Xj, p_model_name = Some n\<rparr>) s)) =
           loaded_models (snd (load_model n s)) \<and>
         scalers (snd (predict lib now (Object \<lparr>p_features = Some Xj, p_model_name = Some n\<rparr>) s)) =
           scalers (snd (load_model n s)) \<and>
         load_trace (snd (predict lib now (Object \<lparr>p_features = Some Xj, p_model_name = Some n\<rparr>) s)) =
           load_trace (snd (load_model n s))"
  by (simp add: predict_lazy_load [OF assms] logging_def split: sum.split)

lemma predict_resident_frame:
  assumes "np_array Xj = Inr X" and "n \<in> fst ` set (loaded_models s)"
  shows "loaded_models (snd (predict lib now (Object \<lparr>p_features = Some Xj, p_model_name = Some n\<rparr>) s)) =
           loaded_models s \<and>
         scalers (snd (predict lib now (Object \<lparr>p_features = Some Xj, p_model_name = Some n\<rparr>) s)) =
           scalers s \<and>
         load_trace (snd (predict lib now (Object \<lparr>p_features = Some Xj, p_model_name = Some n\<rparr>) s)) =
           load_trace s \<and>
         files (snd (predict lib now (Object \<lparr>p_features = Some Xj, p_model_name = Some n\<rparr>) s)) =
           files s"
  by (simp add: predict_resident [OF assms] logging_def split: sum.split)

lemma predict_features_raise_twice:
  assumes "np_array Xj = Inl e"
    and "s1 = snd (predict lib now1 (Object \<lparr>p_features = Some Xj, p_model_name = Some n\<rparr>) s)"
  shows "fst (predict lib now1 (Object \<lparr>p_features = Some Xj, p_model_name = Some n\<rparr>) s) =
           (500, Error_exception e) \<and>
         fst (predict lib now2 (Object \<lparr>p_features = Some Xj, p_model_name = Some n\<rparr>) s1) =
           (500, Error_exception e) \<and>
         load_trace (snd (predict lib now2 (Object \<lparr>p_features = Some Xj, p_model_name = Some n\<rparr>) s1)) =
           load_trace s \<and>
         loaded_models (snd (predict lib now2 (Object \<lparr>p_features = Some Xj, p_model_name = Some n\<rparr>) s1)) =
           loaded_models s \<and>
         scalers (snd (predict lib now2 (Object \<lparr>p_features = Some Xj, p_model_name = Some n\<rparr>) s1)) =
           scalers s"
  unfolding assms(2) by (simp add: predict_features_raise [OF assms(1)] logging_def)

text \<open>
  Claim C5. Two predict requests in a row with the same features, a vector or a matrix
  (\<^verbatim>\<open>np.array\<close> on line 193 returns \<open>X\<close>; when it raises, both requests are
  answered 500 and nothing is read, see \<open>predict_features_raise_twice\<close>), for a name that
  is not resident and that \<open>load_model\<close> can load: the first call reads the model artifact once
  (and the scaler artifact once, if there is one) and leaves the name resident; the second
  call reads nothing, changes neither the dictionaries nor the artifacts, and answers with
  the same predictions (or the same exception) as the first. Only the time stamps differ.
\<close>

theorem predict_twice_loads_once:
  assumes "np_array Xj = Inr X"
    and "n \<notin> fst ` set (loaded_models s)" and "fst (load_model n s)"
    and "s1 = snd (predict lib now1 (Object \<lparr>p_features = Some Xj, p_model_name = Some n\<rparr>) s)"
  shows
    "load_trace s1 =
       load_trace s @ model_path n #
         (if path_exists s (scaler_path n) then [scaler_path n] else []) \<and>
     n \<in> fst ` set (loaded_models s1) \<and>
     load_trace (snd (predict lib now2 (Object \<lparr>p_features = Some Xj, p_model_name = Some n\<rparr>) s1)) =
       load_trace s1 \<and>
     loaded_models (snd (predict lib now2 (Object \<lparr>p_features = Some Xj, p_model_name = Some n\<rparr>) s1)) =
       loaded_models s1 \<and>
     scalers (snd (predict lib now2 (Object \<lparr>p_features = Some Xj, p_model_name = Some n\<rparr>) s1)) =
       scalers s1 \<and>
     files (snd (predict lib now2 (Object \<lparr>p_features = Some Xj, p_model_name = Some n\<rparr>) s1)) =
       files s \<and>
     ((\<exists>predictions.
         fst (predict lib now1 (Object \<lparr>p_features = Some Xj, p_model_name = Some n\<rparr>) s) =
           (200, Predictions predictions n now1) \<and>
         fst (predict lib now2 (Object \<lparr>p_features = Some Xj, p_model_name = Some n\<rparr>) s1) =
           (200, Predictions predictions n now2)) \<or>
      (\<exists>e.
         fst (predict lib now1 (Object \<lparr>p_features = Some Xj, p_model_name = Some n\<rparr>) s) =
           (500, Error_exception e) \<and>
         fst (predict lib now2 (Object \<lparr>p_features = Some Xj, p_model_name = Some n\<rparr>) s1) =
           (500, Error_exception e)))"
proof -
  let ?req = "Object \<lparr>p_features = Some Xj, p_model_name = Some n\<rparr>"
  have after:
    "loaded_models s1 = loaded_models (snd (load_model n s))"
    "scalers s1 = scalers (snd (load_model n s))"
    "load_trace s1 = load_trace (snd (load_model n s))"
    unfolding assms(4) using predict_registry_after_load [OF assms(1,2,3), of lib now1]
    by blast+
  have entry:
    "n \<in> fst ` set (loaded_models (snd (load_model n s)))"
    "load_trace (snd (load_model n s)) =
       load_trace s @ model_path n #
         (if path_exists s (scaler_path n) then [scaler_path n] else [])"
    using load_model_success_entry [OF assms(3)] by blast+
  have resident: "n \<in> fst ` set (loaded_models s1)"
    unfolding after(1) by (rule entry(1))
  have frame:
    "loaded_models (snd (predict lib now2 ?req s1)) = loaded_models s1"
    "scalers (snd (predict lib now2 ?req s1)) = scalers s1"
    "load_trace (snd (predict lib now2 ?req s1)) = load_trace s1"
    "files (snd (predict lib now2 ?req s1)) = files s1"
    using predict_resident_frame [OF assms(1) resident, of lib now2] by blast+
  have same: "run_inference lib n X s1 = run_inference lib n X (snd (load_model n s))"
    by (rule run_inference_registry) (rule after)+
  have files1: "files s1 = files s"
    unfolding assms(4)
    by (simp add: predict_lazy_load [OF assms(1,2,3)] logging_def split: sum.split)
  have trace1: "load_trace s1 =
       load_trace s @ model_path n #
         (if path_exists s (scaler_path n) then [scaler_path n] else [])"
    unfolding after(3) by (rule entry(2))
  have answers: "(\<exists>predictions.
         fst (predict lib now1 ?req s) = (200, Predictions predictions n now1) \<and>
         fst (predict lib now2 ?req s1) = (200, Predictions predictions n now2)) \<or>
      (\<exists>e.
         fst (predict lib now1 ?req s) = (500, Error_exception e) \<and>
         fst (predict lib now2 ?req s1) = (500, Error_exception e))"
  proof (cases "run_inference lib n X (snd (load_model n s))")
    case (Inl e)
    have "fst (predict lib now1 ?req s) = (500, Error_exception e)"
      by (simp add: predict_lazy_load [OF assms(1,2,3)] Inl)
    moreover have "fst (predict lib now2 ?req s1) = (500, Error_exception e)"
      by (simp add: predict_resident [OF assms(1) resident] same Inl)
    ultimately show ?thesis by blast
  next
    case (Inr p)
    have "fst (predict lib now1 ?req s) = (200, Predictions p n now1)"
      by (simp add: predict_lazy_load [OF assms(1,2,3)] Inr)
    moreover have "fst (predict lib now2 ?req s1) = (200, Predictions p n now2)"
      by (simp add: predict_resident [OF assms(1) resident] same Inr)
    ultimately show ?thesis by blast
  qed
  show ?thesis
    apply (intro conjI)
          apply (rule trace1)
         apply (rule resident)
        apply (rule frame(3))
       apply (rule frame(1))
      apply (rule frame(2))
     apply (simp only: frame(4) files1)
    apply (rule answers)
    done
qed


theorem predict_twice_loads_once_witness:
  "load_trace (snd (predict ref_sklearn ''t''
      (Object \<lparr>p_features = Some (Rows [[1, 2]]), p_model_name = Some ''good''\<rparr>) stocked)) =
     [''good.joblib'', ''good_scaler.joblib''] \<and>
   load_trace (snd (predict ref_sklearn ''u''
      (Object \<lparr>p_features = Some (Rows [[1, 2]]), p_model_name = Some ''good''\<rparr>)
      (snd (predict ref_sklearn ''t''
         (Object \<lparr>p_features = Some (Rows [[1, 2]]), p_model_name = Some ''good''\<rparr>) stocked)))) =
     [''good.joblib'', ''good_scaler.joblib'']"
proof -
  have a: "''good'' \<notin> fst ` set (loaded_models stocked)"
    by (simp add: stocked_def)
  have b: "fst (load_model ''good'' stocked)"
    by (simp add: stocked_load_good)
  have c: "path_exists stocked (scaler_path ''good'')"
    by (simp add: path_exists_def scaler_path_def stocked_def)
  have d: "load_trace stocked = []"
    by (simp add: stocked_def)
  have e: "model_path ''good'' = ''good.joblib''" "scaler_path ''good'' = ''good_scaler.joblib''"
    by (simp_all add: scaler_path_def model_path_def)
  have x: "np_array (Rows [[1, 2 :: int]]) = Inr (Arr2 [[1, 2]])"
    by simp
  note w = predict_twice_loads_once [OF x a b refl, of ref_sklearn "''t''" "''u''"]
  have t1: "load_trace (snd (predict ref_sklearn ''t''
      (Object \<lparr>p_features = Some (Rows [[1, 2]]), p_model_name = Some ''good''\<rparr>) stocked)) =
     [''good.joblib'', ''good_scaler.joblib'']"
    using w c by (simp only: d e if_True append_Nil)
  have t2: "load_trace (snd (predict ref_sklearn ''u''
      (Object \<lparr>p_features = Some (Rows [[1, 2]]), p_model_name = Some ''good''\<rparr>)
      (snd (predict ref_sklearn ''t''
         (Object \<lparr>p_features = Some (Rows [[1, 2]]), p_model_name = Some ''good''\<rparr>) stocked)))) =
     load_trace (snd (predict ref_sklearn ''t''
      (Object \<lparr>p_features = Some (Rows [[1, 2]]), p_model_name = Some ''good''\<rparr>) stocked))"
    using w by blast
  show ?thesis
    using t1 t2 by simp
qed

lemma run_inference_promotes_with_scaler:
  "map_of (scalers s) n = Some (Some scaler) \<Longrightarrow>
   run_inference lib n (Arr1 v) s = run_inference lib n (Arr2 [v]) s"
  by (simp add: run_inference_def split: option.split)

lemma run_inference_raw_without_scaler:
  "map_of (loaded_models s) n = Some model \<Longrightarrow> map_of (scalers s) n = Some None \<Longrightarrow>
   run_inference lib n X s = obj_predict lib model X"
  by (simp add: run_inference_def split: option.split)

lemma predict_vector_with_scaler:
  "n \<in> fst ` set (loaded_models s) \<Longrightarrow> map_of (scalers s) n = Some (Some scaler) \<Longrightarrow>
   predict lib now (Object \<lparr>p_features = Some (Vector v), p_model_name = Some n\<rparr>) s =
   predict lib now (Object \<lparr>p_features = Some (Rows [v]), p_model_name = Some n\<rparr>) s"
  by (simp add: predict_resident [of _ "Arr1 v"] predict_resident [of _ "Arr2 [v]"]
                run_inference_promotes_with_scaler)

text \<open>
  Claim C1 says that a 1-D feature row is promoted to a one-row matrix before any
  transform, so that predicting on it succeeds for every resident model, with or without
  a scaler. \<open>predict\<close> reshapes only inside the branch that has a scaler (see
  \<open>predict_vector_with_scaler\<close>). For a model without a scaler the 1-D array reaches the
  regressor as it is, the regressor rejects it, and the request is answered 500, while the
  same row as a one-row matrix is answered 200 with one prediction.
\<close>

theorem predict_vector_without_scaler:
  "map_of (loaded_models serving) ''raw'' = Some (Regressor 2) \<and>
   map_of (scalers serving) ''raw'' = Some None \<and>
   np_array (Vector [1, 2 :: int]) = Inr (Arr1 [1, 2]) \<and>
   np_array (Rows [[1, 2 :: int]]) = Inr (Arr2 [[1, 2]]) \<and>
   fst (predict ref_sklearn ''t''
          (Object \<lparr>p_features = Some (Vector [1, 2]), p_model_name = Some ''raw''\<rparr>) serving) =
     (500, Error_exception ValueError) \<and>
   fst (predict ref_sklearn ''t''
          (Object \<lparr>p_features = Some (Rows [[1, 2]]), p_model_name = Some ''raw''\<rparr>) serving) =
     (200, Predictions (Arr1 [3]) ''raw'' ''t'') \<and>
   fst (predict ref_sklearn ''t''
          (Object \<lparr>p_features = Some (Vector [1, 2]), p_model_name = Some ''good''\<rparr>) serving) =
     (200, Predictions (Arr1 [3]) ''good'' ''t'')"
proof -
  have r: "''raw'' \<in> fst ` set (loaded_models serving)"
    "''good'' \<in> fst ` set (loaded_models serving)"
    by (simp_all add: serving_def)
  have m: "map_of (loaded_models serving) ''raw'' = Some (Regressor 2)"
    "map_of (scalers serving) ''raw'' = Some None"
    "map_of (loaded_models serving) ''good'' = Some (Regressor 2)"
    "map_of (scalers serving) ''good'' = Some (Some (Scaler 2))"
    by (simp_all add: serving_def)
  have v: "run_inference ref_sklearn ''raw'' (Arr1 [1, 2]) serving = Inl ValueError"
    by (simp add: run_inference_def m obj_predict_def ref_sklearn_def check_width_def)
  have x: "run_inference ref_sklearn ''raw'' (Arr2 [[1, 2]]) serving = Inr (Arr1 [3])"
    by (simp add: run_inference_def m obj_predict_def ref_sklearn_def check_width_def)
  have g: "run_inference ref_sklearn ''good'' (Arr1 [1, 2]) serving = Inr (Arr1 [3])"
    by (simp add: run_inference_def m obj_predict_def obj_transform_def ref_sklearn_def
                  check_width_def)
  have a: "np_array (Vector [1, 2 :: int]) = Inr (Arr1 [1, 2])"
    "np_array (Rows [[1, 2 :: int]]) = Inr (Arr2 [[1, 2]])"
    by simp_all
  show ?thesis
    by (simp add: predict_resident [OF a(1) r(1)] predict_resident [OF a(2) r(1)]
                  predict_resident [OF a(1) r(2)] m v x g)
qed

section \<open>The two dictionaries stay paired\<close>

lemma paired_logging [simp]: "registry_paired (logging lv ev s) = registry_paired s"
  by (simp add: registry_paired_def logging_def)

lemma paired_load_model: "registry_paired s \<Longrightarrow> registry_paired (snd (load_model n s))"
  by (rule load_model_outcomes [of s n])
     (simp_all add: registry_paired_def logging_def dom_update)

lemma paired_load_each: "registry_paired s \<Longrightarrow> registry_paired (load_each fs s)"
  by (induction fs arbitrary: s) (simp_all add: paired_load_model)

lemma ensure_registry:
  "ensure_model_directory s = Inr s0 \<Longrightarrow>
   loaded_models s0 = loaded_models s \<and> scalers s0 = scalers s"
  by (cases "dir_exists s"; cases "mkdir_fails s") (auto simp: ensure_model_directory_def)

lemma paired_ensure:
  "ensure_model_directory s = Inr s0 \<Longrightarrow> registry_paired s0 = registry_paired s"
  using ensure_registry [of s s0] by (simp add: registry_paired_def)

lemma startup_cases:
  assumes "startup s = Inr s'"
  obtains s0 where "ensure_model_directory s = Inr s0"
    and "s' = (case listdir (logging INFO Storage_path (logging INFO Service_starting s0)) of
                 Inl e \<Rightarrow> logging WARNING (Autoload_failed e)
                           (logging INFO Storage_path (logging INFO Service_starting s0))
               | Inr fs \<Rightarrow> load_each (model_files fs)
                           (logging INFO Storage_path (logging INFO Service_starting s0)))"
  using assms
  by (cases "ensure_model_directory s")
     (auto simp: startup_def Let_def split: sum.splits)

lemma paired_startup:
  assumes "registry_paired s" and "startup s = Inr s'"
  shows "registry_paired s'"
proof -
  obtain s0 where e: "ensure_model_directory s = Inr s0"
    and s': "s' = (case listdir (logging INFO Storage_path (logging INFO Service_starting s0)) of
                 Inl e \<Rightarrow> logging WARNING (Autoload_failed e)
                           (logging INFO Storage_path (logging INFO Service_starting s0))
               | Inr fs \<Rightarrow> load_each (model_files fs)
                           (logging INFO Storage_path (logging INFO Service_starting s0)))"
    using assms(2) by (rule startup_cases)
  have "registry_paired s0"
    using paired_ensure [OF e] assms(1) by simp
  then show ?thesis
    unfolding s' by (simp add: paired_load_each split: sum.split)
qed

lemma paired_medium:
  "registry_paired s \<Longrightarrow> loaded_models s' = loaded_models s \<Longrightarrow> scalers s' = scalers s \<Longrightarrow>
   registry_paired s'"
  by (simp add: registry_paired_def)

lemma paired_load_endpoint:
  "registry_paired s \<Longrightarrow> registry_paired (snd (load_model_endpoint n s))"
  by (simp add: load_model_endpoint_def case_prod_unfold paired_load_model)

lemma keys_delete: "fst ` set (AList.delete k al) = fst ` set al - {k}"
  by (induction al) auto

lemma paired_unload:
  "registry_paired s \<Longrightarrow> registry_paired (snd (unload_model n s))"
  by (simp add: unload_model_state registry_paired_def keys_delete)


lemma train_model_registry:
  "(loaded_models (snd (train_model lib trained_at saved_at data s)) = loaded_models s \<and>
    scalers (snd (train_model lib trained_at saved_at data s)) = scalers s) \<or>
   (\<exists>name model scaler.
      loaded_models (snd (train_model lib trained_at saved_at data s)) =
        AList.update name model (loaded_models s) \<and>
      scalers (snd (train_model lib trained_at saved_at data s)) =
        AList.update name (Some scaler) (scalers s))"
proof (cases data)
  case (Raises e)
  then show ?thesis by (simp add: train_model_get_json_raises logging_def)
next
  case Null
  then show ?thesis by (simp add: train_model_missing)
next
  case (Object d)
  show ?thesis
  proof (cases "t_features d = None \<or> t_target d = None")
    case True
    then show ?thesis by (simp add: Object train_model_missing)
  next
    case False
    then obtain Xj yj where d: "t_features d = Some Xj" "t_target d = Some yj"
      by auto
    show ?thesis
    proof (cases "np_array Xj")
      case (Inl e)
      then show ?thesis
        by (simp add: Object train_model_features_raise [OF d] logging_def)
    next
      case X: (Inr X)
      show ?thesis
      proof (cases "np_array yj")
        case (Inl e)
        then show ?thesis
          by (simp add: Object train_model_target_raises [OF d X] logging_def)
      next
        case y: (Inr y)
        show ?thesis
        proof (cases "fit_pipeline lib trained_at X y")
          case (Inl e)
          then show ?thesis
            by (simp add: Object train_model_raises [OF d X y] logging_def)
        next
          case (Inr r)
          obtain model scaler metadata where r: "r = (model, scaler, metadata)"
            by (cases r) auto
          show ?thesis
            unfolding Object train_model_fitted [OF d X y Inr [unfolded r]]
            by (simp add: save_model_frame) blast
        qed
      qed
    qed
  qed
qed

lemma paired_train:
  assumes "registry_paired s"
  shows "registry_paired (snd (train_model lib trained_at saved_at data s))"
  using train_model_registry [of lib trained_at saved_at data s]
proof (elim disjE exE conjE)
  assume "loaded_models (snd (train_model lib trained_at saved_at data s)) = loaded_models s"
    and "scalers (snd (train_model lib trained_at saved_at data s)) = scalers s"
  then show ?thesis using assms by (simp add: registry_paired_def)
next
  fix name model scaler
  assume "loaded_models (snd (train_model lib trained_at saved_at data s)) =
      AList.update name model (loaded_models s)"
    and "scalers (snd (train_model lib trained_at saved_at data s)) =
      AList.update name (Some scaler) (scalers s)"
  then show ?thesis using assms by (simp add: registry_paired_def dom_update)
qed

lemma predict_registry:
  "(loaded_models (snd (predict lib now data s)) = loaded_models s \<and>
    scalers (snd (predict lib now data s)) = scalers s) \<or>
   (\<exists>n. loaded_models (snd (predict lib now data s)) = loaded_models (snd (load_model n s)) \<and>
        scalers (snd (predict lib now data s)) = scalers (snd (load_model n s)))"
proof (cases data)
  case (Raises e)
  then show ?thesis by (simp add: predict_get_json_raises logging_def)
next
  case Null
  then show ?thesis by (simp add: predict_missing)
next
  case (Object d)
  show ?thesis
  proof (cases "p_features d = None \<or> p_model_name d = None")
    case True
    then show ?thesis by (simp add: Object predict_missing)
  next
    case False
    then obtain Xj n where d: "p_features d = Some Xj" "p_model_name d = Some n"
      by auto
    have req: "data = Object \<lparr>p_features = Some Xj, p_model_name = Some n\<rparr>"
      using d Object by (cases d) simp
    show ?thesis
    proof (cases "np_array Xj")
      case (Inl e)
      then show ?thesis
        unfolding req by (simp add: predict_features_raise logging_def)
    next
      case X: (Inr X)
      show ?thesis
      proof (cases "n \<in> fst ` set (loaded_models s)")
        case True
        then show ?thesis
          unfolding req using predict_resident_frame [OF X True, of lib now] by blast
      next
        case absent: False
        show ?thesis
        proof (cases "fst (load_model n s)")
          case True
          then show ?thesis
            unfolding req using predict_registry_after_load [OF X absent True, of lib now]
            by blast
        next
          case False
          then show ?thesis
            unfolding req by (auto simp: predict_not_loadable [OF X absent False])
        qed
      qed
    qed
  qed
qed

lemma paired_predict:
  assumes "registry_paired s"
  shows "registry_paired (snd (predict lib now data s))"
  using predict_registry [of lib now data s]
proof (elim disjE exE conjE)
  assume "loaded_models (snd (predict lib now data s)) = loaded_models s"
    and "scalers (snd (predict lib now data s)) = scalers s"
  then show ?thesis using assms by (simp add: registry_paired_def)
next
  fix n
  assume "loaded_models (snd (predict lib now data s)) = loaded_models (snd (load_model n s))"
    and "scalers (snd (predict lib now data s)) = scalers (snd (load_model n s))"
  then show ?thesis
    using paired_load_model [OF assms, of n] by (simp add: registry_paired_def)
qed


lemma reachable_paired: "reachable lib s \<Longrightarrow> registry_paired s"
proof (induction rule: reachable.induct)
  case (initial s)
  then show ?case by (simp add: registry_paired_def)
next
  case (step_startup s s')
  then show ?case by (simp add: paired_startup)
next
  case (step_train s trained_at saved_at data)
  then show ?case by (simp add: paired_train)
next
  case (step_predict s now pdata)
  then show ?case by (simp add: paired_predict)
next
  case (step_load s model_name)
  then show ?case by (simp add: paired_load_endpoint)
next
  case (step_unload s model_name)
  then show ?case by (simp add: paired_unload)
next
  case (step_medium s s')
  then show ?case by (simp add: paired_medium)
qed

text \<open>
  Claim C9. In every reachable state \<open>loaded_models\<close> and \<open>scalers\<close> have the same
  keys, so for every resident model the lookup of its scaler is defined (the entry may be
  the explicit \<open>None\<close> of a model without a scaler). Each step keeps the keys paired:
  \<open>load_model\<close> and \<open>train_model\<close> set both entries of a name or neither
  (\<open>load_model_outcomes\<close>, \<open>train_model_registry\<close>), and \<open>unload_model\<close> deletes
  the name from both (\<open>unload_model_state\<close>).
\<close>

theorem registry_keys_agree:
  assumes "reachable lib s"
  shows "fst ` set (loaded_models s) = fst ` set (scalers s) \<and>
         (\<forall>n. n \<in> fst ` set (loaded_models s) \<longrightarrow> (\<exists>entry. map_of (scalers s) n = Some entry))"
proof -
  have keys: "fst ` set (loaded_models s) = fst ` set (scalers s)"
    using reachable_paired [OF assms] by (simp add: registry_paired_def)
  have "\<exists>entry. map_of (scalers s) n = Some entry" if "n \<in> fst ` set (loaded_models s)" for n
  proof -
    from that keys have "n \<in> fst ` set (scalers s)" by simp
    then have "map_of (scalers s) n \<noteq> None" by (simp add: map_of_eq_None_iff)
    then show ?thesis by auto
  qed
  with keys show ?thesis by blast
qed

lemma fresh_trained_registry:
  "loaded_models (snd (train_model ref_sklearn ''t0'' ''t1'' (Object five_rows) fresh)) =
     [(''t1'', Regressor 2)] \<and>
   scalers (snd (train_model ref_sklearn ''t0'' ''t1'' (Object five_rows) fresh)) =
     [(''t1'', Some (Scaler 2))]"
proof -
  have d: "t_features five_rows = Some (Rows [[1, 2], [2, 3], [3, 4], [4, 5], [5, 6]])"
    "t_target five_rows = Some (Vector [1, 2, 3, 4, 5])"
    "t_model_name five_rows = Some ''t1''"
    by (simp_all add: five_rows_def)
  have ok: "fst (fst (save_model ''t1'' (Regressor 2) (Some (Scaler 2)) ''t1'' md fresh))"
    for md :: "int metadata option"
    by (rule save_model_success) (simp_all add: fresh_def)
  have reg: "loaded_models fresh = []" "scalers fresh = []"
    by (simp_all add: fresh_def)
  show ?thesis
    by (simp add: train_model_fitted [OF d(1,2) five_rows_arrays five_rows_fitted] d(3) ok reg)
qed

theorem registry_keys_agree_witness:
  "reachable ref_sklearn (snd (train_model ref_sklearn ''t0'' ''t1'' (Object five_rows) fresh)) \<and>
   fst ` set (loaded_models (snd (train_model ref_sklearn ''t0'' ''t1'' (Object five_rows) fresh))) =
     {''t1''} \<and>
   fst ` set (scalers (snd (train_model ref_sklearn ''t0'' ''t1'' (Object five_rows) fresh))) =
     {''t1''} \<and>
   map_of (scalers (snd (train_model ref_sklearn ''t0'' ''t1'' (Object five_rows) fresh))) ''t1'' =
     Some (Some (Scaler 2))"
proof -
  have "reachable ref_sklearn fresh"
    by (rule reachable.initial) (simp_all add: fresh_def)
  then have r: "reachable ref_sklearn
      (snd (train_model ref_sklearn ''t0'' ''t1'' (Object five_rows) fresh))"
    by (rule reachable.step_train)
  show ?thesis
    using registry_keys_agree [OF r] r by (simp add: fresh_trained_registry)
qed

section \<open>The startup sweep\<close>

lemma replace_Nil: "old \<noteq> [] \<Longrightarrow> replace old new [] = []"
  by (subst replace.simps) simp

lemma replace_match:
  "old \<noteq> [] \<Longrightarrow> prefix old (c # cs) \<Longrightarrow>
   replace old new (c # cs) = new @ replace old new (drop (length old) (c # cs))"
  by (subst replace.simps) simp

lemma replace_skip:
  "old \<noteq> [] \<Longrightarrow> \<not> prefix old (c # cs) \<Longrightarrow>
   replace old new (c # cs) = c # replace old new cs"
  by (subst replace.simps) simp

lemma joblib_no_border:
  "prefix ''.joblib'' (n @ ''.joblib'') \<Longrightarrow> n = [] \<or> prefix ''.joblib'' n"
  by (auto simp: prefix_append append_eq_Cons_conv Cons_eq_append_conv)

lemma strip_joblib:
  "\<not> sublist ''.joblib'' n \<Longrightarrow> replace ''.joblib'' '''' (n @ ''.joblib'') = n"
proof (induction n)
  case Nil
  show ?case by (simp add: replace_match replace_Nil)
next
  case (Cons c cs)
  from Cons.prems have np: "\<not> prefix ''.joblib'' (c # cs)" and ns: "\<not> sublist ''.joblib'' cs"
    by (simp_all add: sublist_Cons_right)
  have "\<not> prefix ''.joblib'' ((c # cs) @ ''.joblib'')"
    using joblib_no_border [of "c # cs"] np by blast
  then have "replace ''.joblib'' '''' ((c # cs) @ ''.joblib'') =
      c # replace ''.joblib'' '''' (cs @ ''.joblib'')"
    by (simp add: replace_skip)
  then show ?case using Cons.IH [OF ns] by simp
qed

lemma model_file_of_name:
  "\<not> endswith n ''_scaler'' \<Longrightarrow>
   endswith (model_path n) ''.joblib'' \<and> \<not> endswith (model_path n) ''_scaler.joblib''"
  by (simp add: endswith_def model_path_def suffix_def) 

lemma load_model_other:
  "k \<noteq> n \<Longrightarrow>
   map_of (loaded_models (snd (load_model n s))) k = map_of (loaded_models s) k \<and>
   map_of (scalers (snd (load_model n s))) k = map_of (scalers s) k"
  by (rule load_model_outcomes [of s n]) (simp_all add: logging_def update_conv')

lemma same_store_reads:
  assumes "files s' = files s" and "dir_exists s' = dir_exists s"
  shows "path_exists s' p = path_exists s p"
    and "fst (joblib_load p s') = fst (joblib_load p s)"
  using assms by (simp_all add: path_exists_def joblib_load_fst)

lemma load_model_same_store:
  assumes "files s' = files s" and "dir_exists s' = dir_exists s"
  shows "fst (load_model n s') = fst (load_model n s) \<and>
         (fst (load_model n s) \<longrightarrow>
            map_of (loaded_models (snd (load_model n s'))) n =
              map_of (loaded_models (snd (load_model n s))) n \<and>
            map_of (scalers (snd (load_model n s'))) n =
              map_of (scalers (snd (load_model n s))) n)"
proof (rule load_model_outcomes [of s n])
  assume a: "\<not> path_exists s (model_path n)"
    and r: "load_model n s = (False, logging WARNING (Model_not_found n) s)"
  have "\<not> path_exists s' (model_path n)"
    using a by (simp add: same_store_reads [OF assms])
  then show ?thesis
    by (simp add: r load_model_not_found)
next
  fix e
  assume a: "path_exists s (model_path n)" "fst (joblib_load (model_path n) s) = Inl e"
    and r: "load_model n s =
      (False, logging ERROR (Load_failed n e) (s\<lparr>load_trace := load_trace s @ [model_path n]\<rparr>))"
  have "path_exists s' (model_path n)" "fst (joblib_load (model_path n) s') = Inl e"
    using a by (simp_all add: same_store_reads [OF assms])
  then show ?thesis
    by (simp add: r load_model_unreadable)
next
  fix model
  assume a: "path_exists s (model_path n)" "fst (joblib_load (model_path n) s) = Inr model"
    "\<not> path_exists s (scaler_path n)"
    and r: "load_model n s =
      (True, logging INFO (Model_loaded n)
         (s\<lparr>load_trace := load_trace s @ [model_path n],
            loaded_models := AList.update n model (loaded_models s),
            scalers := AList.update n None (scalers s)\<rparr>))"
  have "path_exists s' (model_path n)" "fst (joblib_load (model_path n) s') = Inr model"
    "\<not> path_exists s' (scaler_path n)"
    using a by (simp_all add: same_store_reads [OF assms])
  then show ?thesis
    by (simp add: r load_model_no_scaler logging_def update_conv')
next
  fix model e
  assume a: "path_exists s (model_path n)" "fst (joblib_load (model_path n) s) = Inr model"
    "path_exists s (scaler_path n)" "fst (joblib_load (scaler_path n) s) = Inl e"
    and r: "load_model n s =
      (False, logging ERROR (Load_failed n e)
         (s\<lparr>load_trace := load_trace s @ [model_path n, scaler_path n]\<rparr>))"
  have "path_exists s' (model_path n)" "fst (joblib_load (model_path n) s') = Inr model"
    "path_exists s' (scaler_path n)" "fst (joblib_load (scaler_path n) s') = Inl e"
    using a by (simp_all add: same_store_reads [OF assms])
  then show ?thesis
    by (simp add: r load_model_scaler_unreadable)
next
  fix model sc
  assume a: "path_exists s (model_path n)" "fst (joblib_load (model_path n) s) = Inr model"
    "path_exists s (scaler_path n)" "fst (joblib_load (scaler_path n) s) = Inr sc"
    and r: "load_model n s =
      (True, logging INFO (Model_loaded n)
         (s\<lparr>load_trace := load_trace s @ [model_path n, scaler_path n],
            loaded_models := AList.update n model (loaded_models s),
            scalers := AList.update n (Some sc) (scalers s)\<rparr>))"
  have "path_exists s' (model_path n)" "fst (joblib_load (model_path n) s') = Inr model"
    "path_exists s' (scaler_path n)" "fst (joblib_load (scaler_path n) s') = Inr sc"
    using a by (simp_all add: same_store_reads [OF assms])
  then show ?thesis
    by (simp add: r load_model_with_scaler logging_def update_conv')
qed

lemma load_each_store:
  "files (load_each fs s) = files s \<and> dir_exists (load_each fs s) = dir_exists s"
  by (induction fs arbitrary: s) simp_all

lemma load_each_untouched:
  "n \<notin> replace ''.joblib'' '''' ` set fs \<Longrightarrow>
   map_of (loaded_models (load_each fs s)) n = map_of (loaded_models s) n \<and>
   map_of (scalers (load_each fs s)) n = map_of (scalers s) n"
proof (induction fs arbitrary: s)
  case Nil
  show ?case by simp
next
  case (Cons f rest)
  then have ne: "n \<noteq> replace ''.joblib'' '''' f"
    and nr: "n \<notin> replace ''.joblib'' '''' ` set rest"
    by auto
  show ?case
    using Cons.IH [OF nr, of "snd (load_model (replace ''.joblib'' '''' f) s)"]
      load_model_other [OF ne, of s]
    by simp
qed

lemma load_each_loads:
  assumes "fst (load_model n s)"
  shows "files s' = files s \<Longrightarrow> dir_exists s' = dir_exists s \<Longrightarrow>
         n \<in> replace ''.joblib'' '''' ` set fs \<Longrightarrow>
         map_of (loaded_models (load_each fs s')) n =
           map_of (loaded_models (snd (load_model n s))) n \<and>
         map_of (scalers (load_each fs s')) n =
           map_of (scalers (snd (load_model n s))) n"
proof (induction fs arbitrary: s')
  case Nil
  then show ?case by simp
next
  case (Cons f rest)
  let ?m = "replace ''.joblib'' '''' f"
  let ?s'' = "snd (load_model ?m s')"
  have store: "files ?s'' = files s" "dir_exists ?s'' = dir_exists s"
    using Cons.prems(1,2) by simp_all
  show ?case
  proof (cases "n \<in> replace ''.joblib'' '''' ` set rest")
    case True
    then show ?thesis
      using Cons.IH [OF store True] by simp
  next
    case False
    with Cons.prems(3) have nm: "n = ?m" by auto
    have "map_of (loaded_models (load_each rest ?s'')) n = map_of (loaded_models ?s'') n"
      and "map_of (scalers (load_each rest ?s'')) n = map_of (scalers ?s'') n"
      using load_each_untouched [OF False, of ?s''] by simp_all
    moreover have "map_of (loaded_models (snd (load_model n s'))) n =
        map_of (loaded_models (snd (load_model n s))) n"
      and "map_of (scalers (snd (load_model n s'))) n =
        map_of (scalers (snd (load_model n s))) n"
      using load_model_same_store [OF Cons.prems(1,2), of n] assms by simp_all
    ultimately show ?thesis
      using nm by simp
  qed
qed

lemma stocked_model_files:
  "model_files (map fst (files stocked)) =
     [''good.joblib'', ''bad.joblib'', ''raw.joblib'', ''half.joblib'', ''a.joblib.b.joblib'']"
  by (simp add: model_files_def stocked_def endswith_def suffix_to_prefix)

lemma stocked_names:
  "replace ''.joblib'' '''' ''good.joblib'' = ''good''"
  "replace ''.joblib'' '''' ''bad.joblib'' = ''bad''"
  "replace ''.joblib'' '''' ''raw.joblib'' = ''raw''"
  "replace ''.joblib'' '''' ''half.joblib'' = ''half''"
  "replace ''.joblib'' '''' ''a.joblib.b.joblib'' = ''a.b''"
  by (simp_all add: replace.simps)

lemma stocked_startup:
  "startup stocked =
     Inr (stocked
       \<lparr>loaded_models := [(''good'', Regressor 2), (''raw'', Regressor 2)],
        scalers := [(''good'', Some (Scaler 2)), (''raw'', None)],
        load_trace :=
          [''good.joblib'', ''good_scaler.joblib'', ''bad.joblib'',
           ''raw.joblib'', ''half.joblib'', ''half_scaler.joblib''],
        log_lines :=
          [(INFO, Service_starting), (INFO, Storage_path),
           (INFO, Model_loaded ''good''),
           (ERROR, Load_failed ''bad'' UnpicklingError),
           (INFO, Model_loaded ''raw''),
           (ERROR, Load_failed ''half'' UnpicklingError),
           (WARNING, Model_not_found ''a.b'')]\<rparr>)"
  by (simp add: startup_def ensure_model_directory_def listdir_def Let_def logging_def
        stocked_def model_files_def endswith_def suffix_to_prefix replace.simps
        load_model_def joblib_load_def path_exists_def model_path_def scaler_path_def)

lemma startup_sweep:
  assumes "dir_exists s" and "\<not> listdir_fails s"
  shows "startup s =
           Inr (load_each (model_files (map fst (files s)))
                  (logging INFO Storage_path (logging INFO Service_starting s)))"
  using assms
  by (simp add: startup_def ensure_model_directory_def listdir_def logging_def Let_def)

text \<open>
  Claim C7 says that the sweep loads every persisted model, so that every loadable model
  is resident afterwards whatever happens to the others. On the directory \<open>stocked\<close>
  the unreadable artifacts of \<open>bad\<close> and \<open>half\<close> are logged and skipped and
  \<open>good\<close> and \<open>raw\<close> are loaded, but two models that \<open>load_model\<close> loads are
  not resident after the sweep: \<open>x_scaler\<close>, whose artifact the filter on the suffix
  \<^verbatim>\<open>_scaler.joblib\<close> takes for a scaler, and \<open>a.joblib.b\<close>, whose name
  \<^verbatim>\<open>replace('.joblib', '')\<close> turns into \<open>a.b\<close>.
\<close>

theorem startup_skips_loadable_counterexample:
  "fst (load_model ''x_scaler'' stocked) \<and>
   fst (load_model ''a.joblib.b'' stocked) \<and>
   \<not> fst (load_model ''bad'' stocked) \<and>
   startup stocked =
     Inr (stocked
       \<lparr>loaded_models := [(''good'', Regressor 2), (''raw'', Regressor 2)],
        scalers := [(''good'', Some (Scaler 2)), (''raw'', None)],
        load_trace :=
          [''good.joblib'', ''good_scaler.joblib'', ''bad.joblib'',
           ''raw.joblib'', ''half.joblib'', ''half_scaler.joblib''],
        log_lines :=
          [(INFO, Service_starting), (INFO, Storage_path),
           (INFO, Model_loaded ''good''),
           (ERROR, Load_failed ''bad'' UnpicklingError),
           (INFO, Model_loaded ''raw''),
           (ERROR, Load_failed ''half'' UnpicklingError),
           (WARNING, Model_not_found ''a.b'')]\<rparr>)"
proof -
  have "fst (load_model ''x_scaler'' stocked)"
    by (simp add: load_model_def joblib_load_def path_exists_def model_path_def
                  scaler_path_def stocked_def logging_def)
  moreover have "fst (load_model ''a.joblib.b'' stocked)"
    by (simp add: load_model_def joblib_load_def path_exists_def model_path_def
                  scaler_path_def stocked_def logging_def)
  moreover have "\<not> fst (load_model ''bad'' stocked)"
    by (simp add: load_model_def joblib_load_def path_exists_def model_path_def
                  scaler_path_def stocked_def logging_def)
  ultimately show ?thesis
    using stocked_startup by simp
qed

text \<open>
  Claim C7, amended. Whenever the directory can be listed, the sweep ends with every
  model resident that \<open>load_model\<close> can load and whose name neither ends in
  \<open>_scaler\<close> nor contains \<open>.joblib\<close>, with exactly the objects \<open>load_model\<close>
  reads for it, and no artifact is changed. Nothing is assumed about the other artifacts:
  those that fail to load are logged by \<open>load_model\<close> and skipped.
\<close>

theorem startup_failure_isolation:
  assumes "\<not> listdir_fails s"
    and "fst (load_model n s)"
    and "\<not> sublist ''.joblib'' n" and "\<not> endswith n ''_scaler''"
  shows "\<exists>s'. startup s = Inr s' \<and>
           n \<in> fst ` set (loaded_models s') \<and>
           map_of (loaded_models s') n = map_of (loaded_models (snd (load_model n s))) n \<and>
           map_of (scalers s') n = map_of (scalers (snd (load_model n s))) n \<and>
           files s' = files s"
proof -
  let ?s1 = "logging INFO Storage_path (logging INFO Service_starting s)"
  let ?fs = "model_files (map fst (files s))"
  have stored: "path_exists s (model_path n)"
    using assms(2) load_model_not_found [of s n] by (cases "path_exists s (model_path n)") auto
  then have dir: "dir_exists s" and listed: "model_path n \<in> set (map fst (files s))"
    by (simp_all add: path_exists_def)
  have sweep: "startup s = Inr (load_each ?fs ?s1)"
    using dir assms(1) by (rule startup_sweep)
  have "model_path n \<in> set ?fs"
    using listed model_file_of_name [OF assms(4)] by (simp add: model_files_def)
  moreover have "replace ''.joblib'' '''' (model_path n) = n"
    using strip_joblib [OF assms(3)] by (simp add: model_path_def)
  ultimately have enumerated: "n \<in> replace ''.joblib'' '''' ` set ?fs"
    by (metis image_eqI)
  have store: "files ?s1 = files s" "dir_exists ?s1 = dir_exists s"
    by (simp_all add: logging_def)
  note loaded = load_each_loads [OF assms(2) store enumerated]
  have entry: "map_of (loaded_models (snd (load_model n s))) n \<noteq> None"
    using load_model_success_entry [OF assms(2)] by simp
  have "map_of (loaded_models (load_each ?fs ?s1)) n \<noteq> None"
    using loaded entry by simp
  then have resident: "n \<in> fst ` set (loaded_models (load_each ?fs ?s1))"
    by (simp add: map_of_eq_None_iff)
  have "files (load_each ?fs ?s1) = files s"
    using load_each_store [of ?fs ?s1] store by simp
  then show ?thesis
    using sweep loaded resident by simp
qed

theorem startup_failure_isolation_witness:
  "\<not> fst (load_model ''bad'' stocked) \<and>
   (\<exists>s'. startup stocked = Inr s' \<and>
      ''good'' \<in> fst ` set (loaded_models s') \<and>
      map_of (loaded_models s') ''good'' = Some (Regressor 2) \<and>
      map_of (scalers s') ''good'' = Some (Some (Scaler 2)))"
proof -
  have a: "\<not> listdir_fails stocked"
    by (simp add: stocked_def)
  have b: "fst (load_model ''good'' stocked)"
    by (simp add: stocked_load_good)
  have c: "\<not> sublist ''.joblib'' ''good''"
    by (simp add: sublist_Cons_right)
  have d: "\<not> endswith ''good'' ''_scaler''"
    by (simp add: endswith_def suffix_to_prefix)
  have e: "\<not> fst (load_model ''bad'' stocked)"
    by (simp add: load_model_def joblib_load_def path_exists_def model_path_def
                  scaler_path_def stocked_def logging_def)
  have "\<exists>s'. startup stocked = Inr s' \<and>
      ''good'' \<in> fst ` set (loaded_models s') \<and>
      map_of (loaded_models s') ''good'' = Some (Regressor 2) \<and>
      map_of (scalers s') ''good'' = Some (Some (Scaler 2)) \<and>
      files s' = files stocked"
    using startup_failure_isolation [OF a b c d] by (simp add: stocked_load_good)
  then show ?thesis
    using e by blast
qed

end
